theory Spec2Isabelle
  imports Complex_Main "HOL-Library.Word" "HOL-Library.Product_Lexorder" "HOL-Library.Sublist"
begin

section \<open>Data model of \<^verbatim>\<open>Adcirc::Geometry::Mesh\<close> (src/src/mesh.cpp)\<close>

text \<open>
  \<^verbatim>\<open>size_t\<close> is the 64-bit unsigned integer of the usual LP64 platforms: subtraction
  and addition wrap around. A \<^verbatim>\<open>double\<close> is only stored and handed on by the
  functions embedded here (all arithmetic on coordinates that matters to a statement
  below lives in helpers that are parameters), so it is represented by a real number.
  A \<^verbatim>\<open>Node *\<close> into \<^verbatim>\<open>m_nodes\<close> is the storage position it points to.
\<close>

type_synonym size_t = "64 word"
type_synonym double = real
type_synonym node_ptr = nat
type_synonym element_ptr = nat
type_synonym Point = "double \<times> double"

text \<open>
  What \<^verbatim>\<open>adcircmodules_throw_exception(msg)\<close> raises is \<open>Exception msg\<close>.
  \<open>Alloc_error\<close> is the \<^verbatim>\<open>std::length_error\<close> or \<^verbatim>\<open>std::bad_alloc\<close> that a
  \<^verbatim>\<open>std::vector::resize\<close> throws when it cannot get the storage.
  \<open>Crash\<close> stands for behaviour the C++ standard leaves undefined (an out-of-range
  \<^verbatim>\<open>operator[]\<close> on a vector that is read, a null pointer that is dereferenced).
\<close>

datatype error = Exception string | Alloc_error | Crash

text \<open>
  Modelled from the spec: the record classes \<^verbatim>\<open>Node\<close>, \<^verbatim>\<open>Element\<close> and
  \<^verbatim>\<open>Boundary\<close> (node.h, element.h, boundary.h are not among the sources). A node is
  an identifier, a position and an elevation; an element is an identifier and its 3 or 4
  node references (\<^verbatim>\<open>n()\<close> is their number); a boundary is a type code, a length and
  the per-node sequences the type code calls for.
\<close>

record Node =
  node_id :: size_t
  node_x :: double
  node_y :: double
  node_z :: double

record Element =
  element_id :: size_t
  element_nodes :: "node_ptr list"

record Boundary =
  boundaryCode :: int
  boundaryLength :: size_t
  b_node1 :: "node_ptr option list"
  b_node2 :: "node_ptr option list"
  b_crestElevation :: "double list"
  b_subcriticalWeirCoeff :: "double list"
  b_supercriticalWeirCoeff :: "double list"
  b_pipeHeight :: "double list"
  b_pipeCoeff :: "double list"
  b_pipeDiam :: "double list"

text \<open>
  Modelled from the spec: \<^verbatim>\<open>QKdtree2\<close> (kdtree2lib.h is not among the sources), the
  nearest-neighbour structure over a fixed point set. Its observable content is the
  point set it was built from and whether it has been built.
\<close>

record QKdtree2 =
  kd_x :: "double list"
  kd_y :: "double list"
  kd_initialized :: bool

datatype MeshFormat = MESH_UNKNOWN | MESH_ADCIRC | MESH_2DM | MESH_DFLOW

record Mesh =
  m_filename :: string
  m_meshHeaderString :: string
  m_epsg :: int
  m_isLatLon :: bool
  m_numNodes :: size_t
  m_numElements :: size_t
  m_numOpenBoundaries :: size_t
  m_numLandBoundaries :: size_t
  m_totalOpenBoundaryNodes :: size_t
  m_totalLandBoundaryNodes :: size_t
  m_nodeOrderingLogical :: bool
  m_elementOrderingLogical :: bool
  m_nodes :: "Node list"
  m_elements :: "Element list"
  m_openBoundaries :: "Boundary list"
  m_landBoundaries :: "Boundary list"
  m_nodeLookup :: "size_t \<rightharpoonup> size_t"
  m_elementLookup :: "size_t \<rightharpoonup> size_t"
  m_nodalSearchTree :: "QKdtree2 option"
  m_elementalSearchTree :: "QKdtree2 option"

section \<open>Library behaviour the code relies on\<close>

text \<open>\<^verbatim>\<open>std::to_string\<close> and \<^verbatim>\<open>operator<<\<close> on an unsigned integer: its decimal digits.\<close>

fun to_string_nat :: "nat \<Rightarrow> string" where
  "to_string_nat n =
     (if n < 10 then [''0123456789'' ! n]
      else to_string_nat (n div 10) @ [''0123456789'' ! (n mod 10)])"

declare to_string_nat.simps [simp del]

definition to_string :: "size_t \<Rightarrow> string" where
  "to_string w = to_string_nat (unat w)"

text \<open>
  \<^verbatim>\<open>std::unordered_map::operator[]\<close>: an absent key is inserted with the
  value-initialised mapped value (0) and that value is returned.
\<close>

definition subscript :: "(size_t \<rightharpoonup> size_t) \<Rightarrow> size_t \<Rightarrow> size_t \<times> (size_t \<rightharpoonup> size_t)" where
  "subscript lk k = (case lk k of None \<Rightarrow> (0, lk(k \<mapsto> 0)) | Some v \<Rightarrow> (v, lk))"

text \<open>
  \<^verbatim>\<open>std::vector::resize\<close> to \<open>n\<close> elements, with the default-constructed record
  \<open>d\<close>. A size beyond what the vector can hold (\<^verbatim>\<open>max_size()\<close>, or the memory there
  is), here \<open>cap\<close>, throws and leaves the vector as it was; otherwise the vector is
  cut or filled up with copies of \<open>d\<close>.
\<close>

definition resized :: "'a \<Rightarrow> nat \<Rightarrow> 'a list \<Rightarrow> 'a list" where
  "resized d n xs = take n xs @ replicate (n - length xs) d"

definition resize :: "size_t \<Rightarrow> 'a \<Rightarrow> size_t \<Rightarrow> 'a list \<Rightarrow> error + 'a list" where
  "resize cap d n xs = (if n \<le> cap then Inr (resized d (unat n) xs) else Inl Alloc_error)"

text \<open>
  A text file is the string of its characters, and an open \<^verbatim>\<open>std::fstream\<close> is the
  part of the file not yet read together with its \<^verbatim>\<open>eofbit\<close> and \<^verbatim>\<open>failbit\<close>.
  \<^verbatim>\<open>std::getline(fid, str)\<close> on a stream that is not good sets \<^verbatim>\<open>failbit\<close> and leaves
  \<open>str\<close> as it was. On a good stream it replaces \<open>str\<close> by the characters up to the
  next newline, which it consumes; when the file ends first it takes what is left and
  sets \<^verbatim>\<open>eofbit\<close>, and also \<^verbatim>\<open>failbit\<close> when nothing was left. \<open>unlines\<close> is the file
  that consists of the given lines, each ended by a newline.
\<close>

definition newline :: string where
  "newline = [CHR 0x0A]"

definition unlines :: "string list \<Rightarrow> string" where
  "unlines ls = concat (map (\<lambda>l. l @ newline) ls)"

record fstream =
  buffer :: string
  eofbit :: bool
  failbit :: bool

definition getline :: "fstream \<Rightarrow> string \<Rightarrow> string \<times> fstream" where
  "getline fid str =
     (if eofbit fid \<or> failbit fid then (str, fid\<lparr>failbit := True\<rparr>)
      else if CHR 0x0A \<in> set (buffer fid) then
        (takeWhile (\<lambda>c. c \<noteq> CHR 0x0A) (buffer fid),
         fid\<lparr>buffer := tl (dropWhile (\<lambda>c. c \<noteq> CHR 0x0A) (buffer fid))\<rparr>)
      else
        (buffer fid, fid\<lparr>buffer := [], eofbit := True, failbit := (buffer fid = [])\<rparr>))"

section \<open>Counts and accessors\<close>

definition numNodes :: "Mesh \<Rightarrow> size_t" where
  "numNodes m = m_numNodes m"

definition setNumNodes :: "size_t \<Rightarrow> Mesh \<Rightarrow> Mesh" where
  "setNumNodes n m = m\<lparr>m_numNodes := n\<rparr>"

definition numElements :: "Mesh \<Rightarrow> size_t" where
  "numElements m = m_numElements m"

definition setNumElements :: "size_t \<Rightarrow> Mesh \<Rightarrow> Mesh" where
  "setNumElements n m = m\<lparr>m_numElements := n\<rparr>"

definition numOpenBoundaries :: "Mesh \<Rightarrow> size_t" where
  "numOpenBoundaries m = m_numOpenBoundaries m"

definition setNumOpenBoundaries :: "size_t \<Rightarrow> Mesh \<Rightarrow> Mesh" where
  "setNumOpenBoundaries n m = m\<lparr>m_numOpenBoundaries := n\<rparr>"

definition numLandBoundaries :: "Mesh \<Rightarrow> size_t" where
  "numLandBoundaries m = m_numLandBoundaries m"

definition setNumLandBoundaries :: "size_t \<Rightarrow> Mesh \<Rightarrow> Mesh" where
  "setNumLandBoundaries n m = m\<lparr>m_numLandBoundaries := n\<rparr>"

definition setMeshHeaderString :: "string \<Rightarrow> Mesh \<Rightarrow> Mesh" where
  "setMeshHeaderString s m = m\<lparr>m_meshHeaderString := s\<rparr>"

definition meshHeaderString :: "Mesh \<Rightarrow> string" where
  "meshHeaderString m = m_meshHeaderString m"

definition isLatLon :: "Mesh \<Rightarrow> bool" where
  "isLatLon m = m_isLatLon m"

definition defineProjection :: "int \<Rightarrow> bool \<Rightarrow> Mesh \<Rightarrow> Mesh" where
  "defineProjection epsg latlon m = m\<lparr>m_epsg := epsg, m_isLatLon := latlon\<rparr>"

text \<open>\<^verbatim>\<open>Boundary::length()\<close>.\<close>

definition b_length :: "Boundary \<Rightarrow> size_t" where
  "b_length b = boundaryLength b"

text \<open>
  \<^verbatim>\<open>Mesh::totalLandBoundaryNodes\<close> and \<^verbatim>\<open>Mesh::totalOpenBoundaryNodes\<close>: the member
  is zeroed, every boundary's length is added to it, and it is returned. The loop is the
  recursion \<open>add_lengths\<close> over the boundary collection.
\<close>

fun add_lengths :: "size_t \<Rightarrow> Boundary list \<Rightarrow> size_t" where
  "add_lengths acc [] = acc"
| "add_lengths acc (b # bs) = add_lengths (acc + b_length b) bs"

definition totalLandBoundaryNodes :: "Mesh \<Rightarrow> size_t \<times> Mesh" where
  "totalLandBoundaryNodes m =
     (let m1 = m\<lparr>m_totalLandBoundaryNodes := 0\<rparr>;
          m2 = m1\<lparr>m_totalLandBoundaryNodes :=
                     add_lengths (m_totalLandBoundaryNodes m1) (m_landBoundaries m1)\<rparr>
      in (m_totalLandBoundaryNodes m2, m2))"

definition totalOpenBoundaryNodes :: "Mesh \<Rightarrow> size_t \<times> Mesh" where
  "totalOpenBoundaryNodes m =
     (let m1 = m\<lparr>m_totalOpenBoundaryNodes := 0\<rparr>;
          m2 = m1\<lparr>m_totalOpenBoundaryNodes :=
                     add_lengths (m_totalOpenBoundaryNodes m1) (m_openBoundaries m1)\<rparr>
      in (m_totalOpenBoundaryNodes m2, m2))"

text \<open>
  \<^verbatim>\<open>Mesh::node\<close> and \<^verbatim>\<open>Mesh::element\<close>: the pointer to the record at \<open>index\<close>, or the
  out-of-bounds exception.
\<close>

definition node :: "Mesh \<Rightarrow> size_t \<Rightarrow> error + node_ptr" where
  "node m index =
     (if index < numNodes m then Inr (unat index)
      else Inl (Exception (''Mesh: Node index '' @ to_string index @ '' out of bounds'')))"

definition element :: "Mesh \<Rightarrow> size_t \<Rightarrow> error + element_ptr" where
  "element m index =
     (if index < numElements m then Inr (unat index)
      else Inl (Exception ''Mesh: Element index out of bounds''))"

text \<open>
  \<^verbatim>\<open>Mesh::nodeById\<close> and \<^verbatim>\<open>Mesh::elementById\<close>. With sequential ordering the
  identifier is range-checked; otherwise the position is whatever \<^verbatim>\<open>operator[]\<close> of the
  lookup table gives, which also changes the table when the key is absent.
\<close>

definition nodeById :: "Mesh \<Rightarrow> size_t \<Rightarrow> (error + node_ptr) \<times> Mesh" where
  "nodeById m i =
     (if m_nodeOrderingLogical m then
        (if i > 0 \<and> i \<le> numNodes m then (Inr (unat (i - 1)), m)
         else (Inl (Exception (''Mesh: Node id '' @ to_string i @ '' not found'')), m))
      else
        (let (p, lk) = subscript (m_nodeLookup m) i
         in (Inr (unat p), m\<lparr>m_nodeLookup := lk\<rparr>)))"

definition elementById :: "Mesh \<Rightarrow> size_t \<Rightarrow> (error + element_ptr) \<times> Mesh" where
  "elementById m i =
     (if m_elementOrderingLogical m then
        (if i > 0 \<and> i \<le> numElements m then (Inr (unat (i - 1)), m)
         else (Inl (Exception ''Mesh: Element id not found''), m))
      else
        (let (p, lk) = subscript (m_elementLookup m) i
         in (Inr (unat p), m\<lparr>m_elementLookup := lk\<rparr>)))"

text \<open>\<^verbatim>\<open>Mesh::nodeIndexById\<close> and \<^verbatim>\<open>Mesh::elementIndexById\<close>.\<close>

definition nodeIndexById :: "Mesh \<Rightarrow> size_t \<Rightarrow> size_t \<times> Mesh" where
  "nodeIndexById m i =
     (if m_nodeOrderingLogical m then (i - 1, m)
      else (let (p, lk) = subscript (m_nodeLookup m) i in (p, m\<lparr>m_nodeLookup := lk\<rparr>)))"

definition elementIndexById :: "Mesh \<Rightarrow> size_t \<Rightarrow> size_t \<times> Mesh" where
  "elementIndexById m i =
     (if m_elementOrderingLogical m then (i, m)
      else (let (p, lk) = subscript (m_elementLookup m) i in (p, m\<lparr>m_elementLookup := lk\<rparr>)))"

section \<open>What mesh.cpp takes from files that are not among the sources\<close>

text \<open>
  The helpers of io.h and stringconversion.h, the default-constructed records, the
  geometric methods of \<^verbatim>\<open>Element\<close>, the string renderings of single records, the
  kd-tree library and the two readers that are not embedded here are parameters,
  collected in one record. A splitter that returns \<^verbatim>\<open>false\<close> is \<open>None\<close>, otherwise it
  yields the values of its output arguments; \<^verbatim>\<open>splitString\<close> yields the content of
  its output vector after the call; a string conversion yields its result and the
  \<^verbatim>\<open>ok\<close> flag. \<open>max_size\<close> is the largest size to which a vector can be resized.
  A file system gives the content of the files that exist.
\<close>

type_synonym filesystem = "string \<Rightarrow> string option"

record Env =
  splitString :: "string \<Rightarrow> string list"
  stringToSizet :: "string \<Rightarrow> size_t \<times> bool"
  stringToInt :: "string \<Rightarrow> int \<times> bool"
  splitStringNodeFormat :: "string \<Rightarrow> (size_t \<times> double \<times> double \<times> double) option"
  splitStringElemFormat :: "string \<Rightarrow> (size_t \<times> size_t list) option"
  splitStringBoundary0Format :: "string \<Rightarrow> size_t option"
  splitStringBoundary23Format :: "string \<Rightarrow> (size_t \<times> double \<times> double) option"
  splitStringBoundary24Format ::
    "string \<Rightarrow> (size_t \<times> size_t \<times> double \<times> double \<times> double) option"
  splitStringBoundary25Format ::
    "string \<Rightarrow> (size_t \<times> size_t \<times> double \<times> double \<times> double \<times> double \<times> double \<times> double) option"
  getFileExtension :: "string \<Rightarrow> string"
  max_size :: size_t
  Node0 :: Node
  Element0 :: Element
  Boundary0 :: Boundary
  sortVerticiesAboutCenter :: "Node list \<Rightarrow> Element \<Rightarrow> Element"
  isInside :: "Node list \<Rightarrow> Element \<Rightarrow> Point \<Rightarrow> bool"
  node_toAdcircString :: "bool \<Rightarrow> Node \<Rightarrow> string"
  element_toAdcircString :: "Node list \<Rightarrow> Element \<Rightarrow> string"
  boundary_toStringList :: "Node list \<Rightarrow> Boundary \<Rightarrow> string list"
  kd_build :: "double list \<Rightarrow> double list \<Rightarrow> QKdtree2 \<Rightarrow> int \<times> QKdtree2"
  kd_NoError :: int
  kd_new :: QKdtree2
  kd_findXNearest :: "QKdtree2 \<Rightarrow> Point \<Rightarrow> int \<Rightarrow> size_t list"
  read2dmMesh :: "filesystem \<Rightarrow> Mesh \<Rightarrow> (error + unit) \<times> Mesh"
  readDflowMesh :: "filesystem \<Rightarrow> Mesh \<Rightarrow> (error + unit) \<times> Mesh"

text \<open>
  \<^verbatim>\<open>IO::fileExists\<close>, and the constructor \<^verbatim>\<open>std::fstream fid(name)\<close>: a stream on
  the content of the file, or a stream with \<^verbatim>\<open>failbit\<close> set when the file cannot be
  opened.
\<close>

definition fileExists :: "filesystem \<Rightarrow> string \<Rightarrow> bool" where
  "fileExists fs name = (fs name \<noteq> None)"

definition fopen :: "filesystem \<Rightarrow> string \<Rightarrow> fstream" where
  "fopen fs name =
     (case fs name of
        None \<Rightarrow> \<lparr>buffer = [], eofbit = False, failbit = True\<rparr>
      | Some content \<Rightarrow> \<lparr>buffer = content, eofbit = False, failbit = False\<rparr>)"

text \<open>
  Modelled from the spec: \<^verbatim>\<open>Element::setElement\<close>, \<^verbatim>\<open>Element::n\<close>,
  \<^verbatim>\<open>Element::elementLeg\<close> (the pair of vertices that are consecutive around the
  polygon, the last one paired with the first) and the setters of \<^verbatim>\<open>Boundary\<close>
  (element.cpp and boundary.cpp are not among the sources). The attribute sequences a
  boundary carries are fixed by its type code and have the boundary's length, so that
  \<^verbatim>\<open>setBoundary\<close> throws like a \<^verbatim>\<open>resize\<close> for a length that cannot be allocated; a
  null node pointer is \<open>None\<close>.
\<close>

definition setElement :: "size_t \<Rightarrow> node_ptr list \<Rightarrow> Element \<Rightarrow> Element" where
  "setElement i ps e = e\<lparr>element_id := i, element_nodes := ps\<rparr>"

definition element_n :: "Element \<Rightarrow> nat" where
  "element_n e = length (element_nodes e)"


definition setBoundary :: "size_t \<Rightarrow> int \<Rightarrow> size_t \<Rightarrow> Boundary \<Rightarrow> error + Boundary" where
  "setBoundary cap code len b =
     (let n = unat len
      in if \<not> len \<le> cap then Inl Alloc_error
         else
           (let b1 = b\<lparr>boundaryCode := code, boundaryLength := len,
                       b_node1 := resized None n (b_node1 b)\<rparr>
            in if code = 3 \<or> code = 13 \<or> code = 23 then
                 Inr (b1\<lparr>b_crestElevation := resized 0 n (b_crestElevation b1),
                     b_supercriticalWeirCoeff := resized 0 n (b_supercriticalWeirCoeff b1)\<rparr>)
               else if code = 4 \<or> code = 24 then
                 Inr (b1\<lparr>b_node2 := resized None n (b_node2 b1),
                     b_crestElevation := resized 0 n (b_crestElevation b1),
                     b_subcriticalWeirCoeff := resized 0 n (b_subcriticalWeirCoeff b1),
                     b_supercriticalWeirCoeff := resized 0 n (b_supercriticalWeirCoeff b1)\<rparr>)
               else if code = 5 \<or> code = 25 then
                 Inr (b1\<lparr>b_node2 := resized None n (b_node2 b1),
                     b_crestElevation := resized 0 n (b_crestElevation b1),
                     b_subcriticalWeirCoeff := resized 0 n (b_subcriticalWeirCoeff b1),
                     b_supercriticalWeirCoeff := resized 0 n (b_supercriticalWeirCoeff b1),
                     b_pipeHeight := resized 0 n (b_pipeHeight b1),
                     b_pipeCoeff := resized 0 n (b_pipeCoeff b1),
                     b_pipeDiam := resized 0 n (b_pipeDiam b1)\<rparr>)
               else Inr b1))"

definition setNode1 :: "nat \<Rightarrow> node_ptr \<Rightarrow> Boundary \<Rightarrow> Boundary" where
  "setNode1 j p b = b\<lparr>b_node1 := (b_node1 b)[j := Some p]\<rparr>"

definition setNode2 :: "nat \<Rightarrow> node_ptr \<Rightarrow> Boundary \<Rightarrow> Boundary" where
  "setNode2 j p b = b\<lparr>b_node2 := (b_node2 b)[j := Some p]\<rparr>"

definition setCrestElevation :: "nat \<Rightarrow> double \<Rightarrow> Boundary \<Rightarrow> Boundary" where
  "setCrestElevation j v b = b\<lparr>b_crestElevation := (b_crestElevation b)[j := v]\<rparr>"

definition setSubcriticalWeirCoefficient :: "nat \<Rightarrow> double \<Rightarrow> Boundary \<Rightarrow> Boundary" where
  "setSubcriticalWeirCoefficient j v b =
     b\<lparr>b_subcriticalWeirCoeff := (b_subcriticalWeirCoeff b)[j := v]\<rparr>"

definition setSupercriticalWeirCoefficient :: "nat \<Rightarrow> double \<Rightarrow> Boundary \<Rightarrow> Boundary" where
  "setSupercriticalWeirCoefficient j v b =
     b\<lparr>b_supercriticalWeirCoeff := (b_supercriticalWeirCoeff b)[j := v]\<rparr>"

definition setPipeHeight :: "nat \<Rightarrow> double \<Rightarrow> Boundary \<Rightarrow> Boundary" where
  "setPipeHeight j v b = b\<lparr>b_pipeHeight := (b_pipeHeight b)[j := v]\<rparr>"

definition setPipeCoefficient :: "nat \<Rightarrow> double \<Rightarrow> Boundary \<Rightarrow> Boundary" where
  "setPipeCoefficient j v b = b\<lparr>b_pipeCoeff := (b_pipeCoeff b)[j := v]\<rparr>"

definition setPipeDiameter :: "nat \<Rightarrow> double \<Rightarrow> Boundary \<Rightarrow> Boundary" where
  "setPipeDiameter j v b = b\<lparr>b_pipeDiam := (b_pipeDiam b)[j := v]\<rparr>"

section \<open>Reading\<close>

text \<open>
  \<^verbatim>\<open>Mesh::_init\<close>. The two lookup tables are not among the members it resets.
\<close>

definition init :: "Mesh \<Rightarrow> Mesh" where
  "init m =
     (let m1 = (if m_epsg m = - 1 then defineProjection 4326 True m else m)
      in m1\<lparr>m_nodalSearchTree := None, m_elementalSearchTree := None,
             m_numNodes := 0, m_numElements := 0,
             m_numLandBoundaries := 0, m_numOpenBoundaries := 0,
             m_totalOpenBoundaryNodes := 0, m_totalLandBoundaryNodes := 0,
             m_nodeOrderingLogical := True, m_elementOrderingLogical := True,
             m_nodes := [], m_elements := [],
             m_openBoundaries := [], m_landBoundaries := []\<rparr>)"

text \<open>\<^verbatim>\<open>Mesh::getMeshFormat\<close>.\<close>

definition getMeshFormat :: "Env \<Rightarrow> string \<Rightarrow> MeshFormat" where
  "getMeshFormat env filename =
     (let extension = getFileExtension env filename
      in if extension = ''.14'' \<or> extension = ''.grd'' then MESH_ADCIRC
         else if extension = ''.2dm'' then MESH_2DM
         else if sublist ''_net.nc'' filename then MESH_DFLOW
         else MESH_UNKNOWN)"

text \<open>
  \<^verbatim>\<open>Mesh::readAdcircMeshHeader\<close>. Reading \<^verbatim>\<open>tempList[0]\<close> or \<^verbatim>\<open>tempList[1]\<close> of a
  shorter list is undefined. A reader returns the stream as it leaves it, or the error
  that ended it, and the mesh as it stands at that moment. Where the source declares
  \<^verbatim>\<open>tempLine\<close> outside a loop, the loop of the model carries the variable along, since
  a \<^verbatim>\<open>getline\<close> that fails leaves the line of the round before in it.
\<close>

definition readAdcircMeshHeader :: "Env \<Rightarrow> fstream \<Rightarrow> Mesh \<Rightarrow> (error + fstream) \<times> Mesh" where
  "readAdcircMeshHeader env fid m =
     (let (tempLine, fid1) = getline fid [];
          m1 = setMeshHeaderString tempLine m;
          (tempLine2, fid2) = getline fid1 tempLine;
          tempList = splitString env tempLine2
      in case tempList of
           [] \<Rightarrow> (Inl Crash, m1)
         | t0 # rest \<Rightarrow>
             (let (tempInt, ok) = stringToSizet env t0
              in if \<not> ok then (Inl (Exception ''Error reading mesh header''), m1)
                 else
                   (let m2 = setNumElements tempInt m1
                    in case rest of
                         [] \<Rightarrow> (Inl Crash, m2)
                       | t1 # _ \<Rightarrow>
                           (let (tempInt2, ok2) = stringToSizet env t1
                            in if \<not> ok2 then
                                 (Inl (Exception ''Error reading mesh header''), m2)
                               else (Inr fid2, setNumNodes tempInt2 m2)))))"

text \<open>
  \<^verbatim>\<open>Mesh::readAdcircNodes\<close>. The range-for over \<^verbatim>\<open>m_nodes\<close> with its counter \<open>i\<close> is
  the recursion over the storage positions (\<^verbatim>\<open>tempLine\<close> is declared in the loop body
  and so is empty before each \<^verbatim>\<open>getline\<close>); the second loop fills the lookup table.
\<close>

fun readAdcircNodes_loop ::
  "Env \<Rightarrow> nat list \<Rightarrow> size_t \<Rightarrow> fstream \<Rightarrow> Mesh \<Rightarrow> (error + fstream) \<times> Mesh" where
  "readAdcircNodes_loop env [] i fid m = (Inr fid, m)"
| "readAdcircNodes_loop env (k # ks) i fid m =
     (let (tempLine, fid1) = getline fid []
      in case splitStringNodeFormat env tempLine of
           None \<Rightarrow> (Inl (Exception ''Error reading nodes''), m)
         | Some (nid, x, y, z) \<Rightarrow>
             (let m1 = (if i \<noteq> nid - 1 then m\<lparr>m_nodeOrderingLogical := False\<rparr> else m);
                  m2 = m1\<lparr>m_nodes := (m_nodes m1)
                           [k := \<lparr>node_id = nid, node_x = x, node_y = y, node_z = z\<rparr>]\<rparr>
              in readAdcircNodes_loop env ks (i + 1) fid1 m2))"

fun nodeLookup_fill :: "nat list \<Rightarrow> Mesh \<Rightarrow> Mesh" where
  "nodeLookup_fill [] m = m"
| "nodeLookup_fill (i # is) m =
     nodeLookup_fill is
       (m\<lparr>m_nodeLookup := (m_nodeLookup m)(node_id (m_nodes m ! i) \<mapsto> of_nat i)\<rparr>)"

definition readAdcircNodes :: "Env \<Rightarrow> fstream \<Rightarrow> Mesh \<Rightarrow> (error + fstream) \<times> Mesh" where
  "readAdcircNodes env fid m =
     (case resize (max_size env) (Node0 env) (numNodes m) (m_nodes m) of
        Inl e \<Rightarrow> (Inl e, m)
      | Inr ns \<Rightarrow>
          (let m1 = m\<lparr>m_nodes := ns\<rparr>
           in case readAdcircNodes_loop env [0..<length (m_nodes m1)] 0 fid m1 of
                (Inl e, m2) \<Rightarrow> (Inl e, m2)
              | (Inr fid1, m2) \<Rightarrow>
                  if \<not> m_nodeOrderingLogical m2
                  then (Inr fid1, nodeLookup_fill [0..<unat (m_numNodes m2)] m2)
                  else (Inr fid1, m2)))"

text \<open>
  The address expressions of the readers: \<^verbatim>\<open>&this->m_nodes[id - 1]\<close> when the node
  ordering is sequential, \<^verbatim>\<open>&this->m_nodes[this->m_nodeLookup[id]]\<close> otherwise. Taking
  the address does not read the vector; the table lookup may insert the key.
\<close>

definition nodeLookup_at :: "Mesh \<Rightarrow> size_t \<Rightarrow> node_ptr \<times> Mesh" where
  "nodeLookup_at m k =
     (let (p, lk) = subscript (m_nodeLookup m) k in (unat p, m\<lparr>m_nodeLookup := lk\<rparr>))"

definition node_pointer :: "Mesh \<Rightarrow> size_t \<Rightarrow> node_ptr \<times> Mesh" where
  "node_pointer m nid =
     (if m_nodeOrderingLogical m then (unat (nid - 1), m) else nodeLookup_at m nid)"

definition upd_element :: "nat \<Rightarrow> (Element \<Rightarrow> Element) \<Rightarrow> Mesh \<Rightarrow> Mesh" where
  "upd_element k f m = m\<lparr>m_elements := (m_elements m)[k := f (m_elements m ! k)]\<rparr>"

definition upd_open :: "nat \<Rightarrow> (Boundary \<Rightarrow> Boundary) \<Rightarrow> Mesh \<Rightarrow> Mesh" where
  "upd_open k f m = m\<lparr>m_openBoundaries := (m_openBoundaries m)[k := f (m_openBoundaries m ! k)]\<rparr>"

definition upd_land :: "nat \<Rightarrow> (Boundary \<Rightarrow> Boundary) \<Rightarrow> Mesh \<Rightarrow> Mesh" where
  "upd_land k f m = m\<lparr>m_landBoundaries := (m_landBoundaries m)[k := f (m_landBoundaries m ! k)]\<rparr>"

text \<open>
  \<^verbatim>\<open>Mesh::readAdcircElements\<close>: the loop of the branch taken when the node ordering is
  sequential, the loop of the other branch (the only one that compares the element
  identifier with the counter), and the filling of the element lookup table.
  \<^verbatim>\<open>tempLine\<close> is declared before the loops.
\<close>

fun readAdcircElements_loop1 ::
  "Env \<Rightarrow> nat list \<Rightarrow> string \<Rightarrow> fstream \<Rightarrow> Mesh \<Rightarrow> (error + fstream) \<times> Mesh" where
  "readAdcircElements_loop1 env [] tempLine fid m = (Inr fid, m)"
| "readAdcircElements_loop1 env (k # ks) tempLine fid m =
     (let (tempLine1, fid1) = getline fid tempLine
      in case splitStringElemFormat env tempLine1 of
           None \<Rightarrow> (Inl (Exception ''Error reading elements''), m)
         | Some (eid, n) \<Rightarrow>
             (let m1 =
                (if length n = 3 then
                   upd_element k (setElement eid
                     [unat (n ! 0 - 1), unat (n ! 1 - 1), unat (n ! 2 - 1)]) m
                 else if length n = 4 then
                   upd_element k (setElement eid
                     [unat (n ! 0 - 1), unat (n ! 1 - 1), unat (n ! 2 - 1), unat (n ! 3 - 1)]) m
                 else m)
              in readAdcircElements_loop1 env ks tempLine1 fid1 m1))"

fun readAdcircElements_loop2 ::
  "Env \<Rightarrow> nat list \<Rightarrow> size_t \<Rightarrow> string \<Rightarrow> fstream \<Rightarrow> Mesh \<Rightarrow> (error + fstream) \<times> Mesh" where
  "readAdcircElements_loop2 env [] i tempLine fid m = (Inr fid, m)"
| "readAdcircElements_loop2 env (k # ks) i tempLine fid m =
     (let (tempLine1, fid1) = getline fid tempLine
      in case splitStringElemFormat env tempLine1 of
           None \<Rightarrow> (Inl (Exception ''Error reading nodes''), m)
         | Some (eid, n) \<Rightarrow>
             (let m1 = (if i \<noteq> eid - 1 then m\<lparr>m_elementOrderingLogical := False\<rparr> else m);
                  m2 =
                (if length n = 3 then
                   (let (p0, ma) = nodeLookup_at m1 (n ! 0);
                        (p1, mb) = nodeLookup_at ma (n ! 1);
                        (p2, mc) = nodeLookup_at mb (n ! 2)
                    in upd_element k (setElement eid [p0, p1, p2]) mc)
                 else if length n = 4 then
                   (let (p0, ma) = nodeLookup_at m1 (n ! 0);
                        (p1, mb) = nodeLookup_at ma (n ! 1);
                        (p2, mc) = nodeLookup_at mb (n ! 2);
                        (p3, md) = nodeLookup_at mc (n ! 3)
                    in upd_element k (setElement eid [p0, p1, p2, p3]) md)
                 else m1)
              in readAdcircElements_loop2 env ks (i + 1) tempLine1 fid1 m2))"

fun elementLookup_fill :: "nat list \<Rightarrow> Mesh \<Rightarrow> Mesh" where
  "elementLookup_fill [] m = m"
| "elementLookup_fill (i # is) m =
     elementLookup_fill is
       (m\<lparr>m_elementLookup := (m_elementLookup m)(element_id (m_elements m ! i) \<mapsto> of_nat i)\<rparr>)"

definition readAdcircElements :: "Env \<Rightarrow> fstream \<Rightarrow> Mesh \<Rightarrow> (error + fstream) \<times> Mesh" where
  "readAdcircElements env fid m =
     (case resize (max_size env) (Element0 env) (numElements m) (m_elements m) of
        Inl e \<Rightarrow> (Inl e, m)
      | Inr es \<Rightarrow>
          (let m1 = m\<lparr>m_elements := es\<rparr>
           in case (if m_nodeOrderingLogical m1
                    then readAdcircElements_loop1 env [0..<length (m_elements m1)] [] fid m1
                    else readAdcircElements_loop2 env [0..<length (m_elements m1)] 0 [] fid m1) of
                (Inl e, m2) \<Rightarrow> (Inl e, m2)
              | (Inr fid1, m2) \<Rightarrow>
                  if \<not> m_elementOrderingLogical m2
                  then (Inr fid1, elementLookup_fill [0..<unat (m_numElements m2)] m2)
                  else (Inr fid1, m2)))"

text \<open>\<^verbatim>\<open>Mesh::readAdcircOpenBoundaries\<close>: the loop over the nodes of boundary \<open>k\<close>, the
  loop over the boundaries, and the function. \<^verbatim>\<open>tempLine\<close> is declared at the top of
  the function; the loops return it with the stream.\<close>

fun readAdcircOpenBoundaries_nodes ::
  "Env \<Rightarrow> nat list \<Rightarrow> nat \<Rightarrow> string \<Rightarrow> fstream \<Rightarrow> Mesh \<Rightarrow>
   (error + string \<times> fstream) \<times> Mesh" where
  "readAdcircOpenBoundaries_nodes env [] k tempLine fid m = (Inr (tempLine, fid), m)"
| "readAdcircOpenBoundaries_nodes env (j # js) k tempLine fid m =
     (let (tempLine1, fid1) = getline fid tempLine
      in case splitStringBoundary0Format env tempLine1 of
           None \<Rightarrow> (Inl (Exception ''Error reading boundaries''), m)
         | Some nid \<Rightarrow>
             (let (p, m1) = node_pointer m nid;
                  m2 = upd_open k (setNode1 j p) m1
              in readAdcircOpenBoundaries_nodes env js k tempLine1 fid1 m2))"

fun readAdcircOpenBoundaries_loop ::
  "Env \<Rightarrow> nat list \<Rightarrow> string \<Rightarrow> fstream \<Rightarrow> Mesh \<Rightarrow> (error + string \<times> fstream) \<times> Mesh" where
  "readAdcircOpenBoundaries_loop env [] tempLine fid m = (Inr (tempLine, fid), m)"
| "readAdcircOpenBoundaries_loop env (k # ks) tempLine fid m =
     (let (tempLine1, fid1) = getline fid tempLine;
          tempList = splitString env tempLine1
      in case tempList of
           [] \<Rightarrow> (Inl Crash, m)
         | t0 # _ \<Rightarrow>
             (let (len, ok) = stringToSizet env t0
              in if \<not> ok then (Inl (Exception ''Error reading boundaries''), m)
                 else
                   (case setBoundary (max_size env) (- 1) len (m_openBoundaries m ! k) of
                      Inl e \<Rightarrow> (Inl e, m)
                    | Inr b \<Rightarrow>
                        (let m1 = upd_open k (\<lambda>_. b) m
                         in case readAdcircOpenBoundaries_nodes env
                                   [0..<unat (b_length (m_openBoundaries m1 ! k))]
                                   k tempLine1 fid1 m1 of
                              (Inl e, m2) \<Rightarrow> (Inl e, m2)
                            | (Inr (tempLine2, fid2), m2) \<Rightarrow>
                                readAdcircOpenBoundaries_loop env ks tempLine2 fid2 m2))))"

definition readAdcircOpenBoundaries ::
  "Env \<Rightarrow> fstream \<Rightarrow> Mesh \<Rightarrow> (error + fstream) \<times> Mesh" where
  "readAdcircOpenBoundaries env fid m =
     (let (tempLine, fid1) = getline fid [];
          tempList = splitString env tempLine
      in case tempList of
           [] \<Rightarrow> (Inl Crash, m)
         | t0 # _ \<Rightarrow>
             (let (v, ok) = stringToSizet env t0;
                  m1 = setNumOpenBoundaries v m
              in if \<not> ok then
                   (Inl (Exception ''Error reading number of open boundaries''), m1)
                 else
                   (case resize (max_size env) (Boundary0 env) (numOpenBoundaries m1)
                           (m_openBoundaries m1) of
                      Inl e \<Rightarrow> (Inl e, m1)
                    | Inr bs \<Rightarrow>
                        (let m2 = m1\<lparr>m_openBoundaries := bs\<rparr>;
                             (tempLine2, fid2) = getline fid1 tempLine
                         in case readAdcircOpenBoundaries_loop env
                                   [0..<length (m_openBoundaries m2)] tempLine2 fid2 m2 of
                              (Inl e, m3) \<Rightarrow> (Inl e, m3)
                            | (Inr (tempLine3, fid3), m3) \<Rightarrow> (Inr fid3, m3)))))"

text \<open>\<^verbatim>\<open>Mesh::readAdcircLandBoundaries\<close>: the body of the loop over the nodes of boundary
  \<open>k\<close> for one line, that loop, the loop over the boundaries, and the function.\<close>

definition readAdcircLandBoundaries_node ::
  "Env \<Rightarrow> int \<Rightarrow> nat \<Rightarrow> nat \<Rightarrow> string \<Rightarrow> Mesh \<Rightarrow> (error + unit) \<times> Mesh" where
  "readAdcircLandBoundaries_node env code j k tempLine m =
     (if code = 3 \<or> code = 13 \<or> code = 23 then
        (case splitStringBoundary23Format env tempLine of
           None \<Rightarrow> (Inl (Exception ''Error reading boundaries''), m)
         | Some (n1, crest, supercritical) \<Rightarrow>
             (let (p, m1) = node_pointer m n1;
                  m2 = upd_land k (setNode1 j p) m1;
                  m3 = upd_land k (setCrestElevation j crest) m2;
                  m4 = upd_land k (setSupercriticalWeirCoefficient j supercritical) m3
              in (Inr (), m4)))
      else if code = 4 \<or> code = 24 then
        (case splitStringBoundary24Format env tempLine of
           None \<Rightarrow> (Inl (Exception ''Error reading boundaries''), m)
         | Some (n1, n2, crest, subcritical, supercritical) \<Rightarrow>
             (let (p, m1) = node_pointer m n1;
                  m2 = upd_land k (setNode1 j p) m1;
                  (q, m3) = node_pointer m2 n2;
                  m4 = upd_land k (setNode2 j q) m3;
                  m5 = upd_land k (setCrestElevation j crest) m4;
                  m6 = upd_land k (setSubcriticalWeirCoefficient j subcritical) m5;
                  m7 = upd_land k (setSupercriticalWeirCoefficient j supercritical) m6
              in (Inr (), m7)))
      else if code = 5 \<or> code = 25 then
        (case splitStringBoundary25Format env tempLine of
           None \<Rightarrow> (Inl (Exception ''Error reading boundaries''), m)
         | Some (n1, n2, crest, subcritical, supercritical, pipeheight, pipecoef, pipediam) \<Rightarrow>
             (let (p, m1) = node_pointer m n1;
                  m2 = upd_land k (setNode1 j p) m1;
                  (q, m3) = node_pointer m2 n2;
                  m4 = upd_land k (setNode2 j q) m3;
                  m5 = upd_land k (setCrestElevation j crest) m4;
                  m6 = upd_land k (setSubcriticalWeirCoefficient j subcritical) m5;
                  m7 = upd_land k (setSupercriticalWeirCoefficient j supercritical) m6;
                  m8 = upd_land k (setPipeHeight j pipeheight) m7;
                  m9 = upd_land k (setPipeCoefficient j pipecoef) m8;
                  m10 = upd_land k (setPipeDiameter j pipediam) m9
              in (Inr (), m10)))
      else
        (case splitStringBoundary0Format env tempLine of
           None \<Rightarrow> (Inl (Exception ''Error reading boundaries''), m)
         | Some n1 \<Rightarrow>
             (let (p, m1) = node_pointer m n1;
                  m2 = upd_land k (setNode1 j p) m1
              in (Inr (), m2))))"

fun readAdcircLandBoundaries_nodes ::
  "Env \<Rightarrow> int \<Rightarrow> nat list \<Rightarrow> nat \<Rightarrow> string \<Rightarrow> fstream \<Rightarrow> Mesh \<Rightarrow>
   (error + string \<times> fstream) \<times> Mesh" where
  "readAdcircLandBoundaries_nodes env code [] k tempLine fid m = (Inr (tempLine, fid), m)"
| "readAdcircLandBoundaries_nodes env code (j # js) k tempLine fid m =
     (let (tempLine1, fid1) = getline fid tempLine
      in case readAdcircLandBoundaries_node env code j k tempLine1 m of
           (Inl e, m1) \<Rightarrow> (Inl e, m1)
         | (Inr u, m1) \<Rightarrow> readAdcircLandBoundaries_nodes env code js k tempLine1 fid1 m1)"

fun readAdcircLandBoundaries_loop ::
  "Env \<Rightarrow> nat list \<Rightarrow> string \<Rightarrow> fstream \<Rightarrow> Mesh \<Rightarrow> (error + string \<times> fstream) \<times> Mesh" where
  "readAdcircLandBoundaries_loop env [] tempLine fid m = (Inr (tempLine, fid), m)"
| "readAdcircLandBoundaries_loop env (k # ks) tempLine fid m =
     (let (tempLine1, fid1) = getline fid tempLine;
          tempList = splitString env tempLine1
      in case tempList of
           [] \<Rightarrow> (Inl Crash, m)
         | t0 # rest \<Rightarrow>
             (let (len, ok) = stringToSizet env t0
              in if \<not> ok then (Inl (Exception ''Error reading boundaries''), m)
                 else
                   (case rest of
                      [] \<Rightarrow> (Inl Crash, m)
                    | t1 # _ \<Rightarrow>
                        (let (code, ok2) = stringToInt env t1
                         in if \<not> ok2 then (Inl (Exception ''Error reading boundaries''), m)
                            else
                              (case setBoundary (max_size env) code len
                                      (m_landBoundaries m ! k) of
                                 Inl e \<Rightarrow> (Inl e, m)
                               | Inr b \<Rightarrow>
                                   (let m1 = upd_land k (\<lambda>_. b) m
                                    in case readAdcircLandBoundaries_nodes env code
                                              [0..<unat (b_length (m_landBoundaries m1 ! k))]
                                              k tempLine1 fid1 m1 of
                                         (Inl e, m2) \<Rightarrow> (Inl e, m2)
                                       | (Inr (tempLine2, fid2), m2) \<Rightarrow>
                                           readAdcircLandBoundaries_loop env ks
                                             tempLine2 fid2 m2))))))"

definition readAdcircLandBoundaries ::
  "Env \<Rightarrow> fstream \<Rightarrow> Mesh \<Rightarrow> (error + fstream) \<times> Mesh" where
  "readAdcircLandBoundaries env fid m =
     (let (tempLine, fid1) = getline fid [];
          tempList = splitString env tempLine
      in case tempList of
           [] \<Rightarrow> (Inl Crash, m)
         | t0 # _ \<Rightarrow>
             (let (v, ok) = stringToSizet env t0;
                  m1 = setNumLandBoundaries v m
              in if \<not> ok then (Inl (Exception ''Error reading boundaries''), m1)
                 else
                   (case resize (max_size env) (Boundary0 env) (numLandBoundaries m1)
                           (m_landBoundaries m1) of
                      Inl e \<Rightarrow> (Inl e, m1)
                    | Inr bs \<Rightarrow>
                        (let m2 = m1\<lparr>m_landBoundaries := bs\<rparr>;
                             (tempLine2, fid2) = getline fid1 tempLine
                         in case readAdcircLandBoundaries_loop env
                                   [0..<length (m_landBoundaries m2)] tempLine2 fid2 m2 of
                              (Inl e, m3) \<Rightarrow> (Inl e, m3)
                            | (Inr (tempLine3, fid3), m3) \<Rightarrow> (Inr fid3, m3)))))"

text \<open>\<^verbatim>\<open>Mesh::readAdcircMesh\<close>: the five sections in file order; the first exception ends
  the read.\<close>

definition readAdcircMesh :: "Env \<Rightarrow> filesystem \<Rightarrow> Mesh \<Rightarrow> (error + unit) \<times> Mesh" where
  "readAdcircMesh env fs m =
     (let fid = fopen fs (m_filename m)
      in case readAdcircMeshHeader env fid m of
           (Inl e, m1) \<Rightarrow> (Inl e, m1)
         | (Inr fid1, m1) \<Rightarrow>
        (case readAdcircNodes env fid1 m1 of
           (Inl e, m2) \<Rightarrow> (Inl e, m2)
         | (Inr fid2, m2) \<Rightarrow>
        (case readAdcircElements env fid2 m2 of
           (Inl e, m3) \<Rightarrow> (Inl e, m3)
         | (Inr fid3, m3) \<Rightarrow>
        (case readAdcircOpenBoundaries env fid3 m3 of
           (Inl e, m4) \<Rightarrow> (Inl e, m4)
         | (Inr fid4, m4) \<Rightarrow>
        (case readAdcircLandBoundaries env fid4 m4 of
           (Inl e, m5) \<Rightarrow> (Inl e, m5)
         | (Inr fid5, m5) \<Rightarrow> (Inr (), m5))))))"

text \<open>\<^verbatim>\<open>Mesh::read\<close>.\<close>

definition read :: "Env \<Rightarrow> filesystem \<Rightarrow> MeshFormat \<Rightarrow> Mesh \<Rightarrow> (error + unit) \<times> Mesh" where
  "read env fs format m =
     (if m_filename m = [] then (Inl (Exception ''No filename has been specified.''), m)
      else if \<not> fileExists fs (m_filename m) then
        (Inl (Exception ''File does not exist.''), m)
      else
        (let fmt = (if format = MESH_UNKNOWN then getMeshFormat env (m_filename m)
                    else format);
             m1 = init m
         in case fmt of
              MESH_ADCIRC \<Rightarrow> readAdcircMesh env fs m1
            | MESH_2DM \<Rightarrow> read2dmMesh env fs m1
            | MESH_DFLOW \<Rightarrow> readDflowMesh env fs m1
            | MESH_UNKNOWN \<Rightarrow> (Inl (Exception ''Invalid mesh format selected.''), m1)))"

section \<open>The link table\<close>





section \<open>Point location\<close>

text \<open>
  \<^verbatim>\<open>Mesh::elementalSearchTreeInitialized\<close> calls a method through
  \<^verbatim>\<open>m_elementalSearchTree\<close>, which is undefined while that pointer is null.
\<close>

definition elementalSearchTreeInitialized :: "Mesh \<Rightarrow> error + bool" where
  "elementalSearchTreeInitialized m =
     (case m_elementalSearchTree m of None \<Rightarrow> Inl Crash | Some t \<Rightarrow> Inr (kd_initialized t))"

text \<open>\<^verbatim>\<open>Mesh::buildElementalSearchTree\<close>: the centroid of every element, then a new tree
  built over them.\<close>

fun sum_xy :: "Node list \<Rightarrow> node_ptr list \<Rightarrow> double \<Rightarrow> double \<Rightarrow> error + double \<times> double" where
  "sum_xy ns [] tempX tempY = Inr (tempX, tempY)"
| "sum_xy ns (p # ps) tempX tempY =
     (if p < length ns then sum_xy ns ps (tempX + node_x (ns ! p)) (tempY + node_y (ns ! p))
      else Inl Crash)"

fun centroids ::
  "Node list \<Rightarrow> Element list \<Rightarrow> double list \<Rightarrow> double list \<Rightarrow>
   error + double list \<times> double list" where
  "centroids ns [] x y = Inr (x, y)"
| "centroids ns (e # es) x y =
     (case sum_xy ns (element_nodes e) 0 0 of
        Inl err \<Rightarrow> Inl err
      | Inr (tempX, tempY) \<Rightarrow>
          centroids ns es (x @ [tempX / real (element_n e)]) (y @ [tempY / real (element_n e)]))"

definition buildElementalSearchTree :: "Env \<Rightarrow> Mesh \<Rightarrow> (error + unit) \<times> Mesh" where
  "buildElementalSearchTree env m =
     (case centroids (m_nodes m) (m_elements m) [] [] of
        Inl err \<Rightarrow> (Inl err, m)
      | Inr (x, y) \<Rightarrow>
          (let m1 = (case m_elementalSearchTree m of
                       None \<Rightarrow> m
                     | Some t \<Rightarrow> if kd_initialized t then m\<lparr>m_elementalSearchTree := None\<rparr>
                                else m);
               (ierr, t1) = kd_build env x y (kd_new env);
               m2 = m1\<lparr>m_elementalSearchTree := Some t1\<rparr>
           in if ierr \<noteq> kd_NoError env then
                (Inl (Exception ''Mesh: KDTree2 library error''), m2)
              else (Inr (), m2)))"

text \<open>
  \<^verbatim>\<open>Mesh::findElement\<close>. The loop runs over the indices in the order the tree returned
  them; \<^verbatim>\<open>element(i)\<close> may raise, its result is dereferenced, and \<^verbatim>\<open>return -1\<close> in a
  function of type \<^verbatim>\<open>size_t\<close> is the largest value of that type.
\<close>

fun findElement_loop :: "Env \<Rightarrow> Mesh \<Rightarrow> Point \<Rightarrow> size_t list \<Rightarrow> error + size_t" where
  "findElement_loop env m location [] = Inr (- 1)"
| "findElement_loop env m location (i # is) =
     (case element m i of
        Inl err \<Rightarrow> Inl err
      | Inr p \<Rightarrow>
          if p < length (m_elements m) then
            (let found = isInside env (m_nodes m) (m_elements m ! p) location
             in if found then Inr i else findElement_loop env m location is)
          else Inl Crash)"

definition findElement :: "Env \<Rightarrow> Mesh \<Rightarrow> Point \<Rightarrow> (error + size_t) \<times> Mesh" where
  "findElement env m location =
     (let searchDepth = 20
      in case elementalSearchTreeInitialized m of
           Inl err \<Rightarrow> (Inl err, m)
         | Inr initialized \<Rightarrow>
             (case (if \<not> initialized then buildElementalSearchTree env m else (Inr (), m)) of
                (Inl err, m1) \<Rightarrow> (Inl err, m1)
              | (Inr u, m1) \<Rightarrow>
                  (case m_elementalSearchTree m1 of
                     None \<Rightarrow> (Inl Crash, m1)
                   | Some t \<Rightarrow>
                       (let indicies = kd_findXNearest env t location searchDepth
                        in (findElement_loop env m1 location indicies, m1)))))"

section \<open>Writing\<close>

text \<open>
  \<^verbatim>\<open>boost::format("%11i")\<close> of an unsigned count: its decimal digits, padded with
  blanks on the left to a width of 11. The output file is the string written to it.
\<close>

definition format_11i :: "size_t \<Rightarrow> string" where
  "format_11i w = (let s = to_string w in replicate (11 - length s) (CHR '' '') @ s)"

fun write_lines :: "string list \<Rightarrow> string \<Rightarrow> string" where
  "write_lines [] out = out"
| "write_lines (j # js) out = write_lines js (out @ j @ newline)"

fun write_nodes :: "Env \<Rightarrow> bool \<Rightarrow> Node list \<Rightarrow> string \<Rightarrow> string" where
  "write_nodes env latlon [] out = out"
| "write_nodes env latlon (n # ns) out =
     write_nodes env latlon ns (out @ node_toAdcircString env latlon n @ newline)"

fun write_elements :: "Env \<Rightarrow> Node list \<Rightarrow> Element list \<Rightarrow> string \<Rightarrow> string" where
  "write_elements env nodes [] out = out"
| "write_elements env nodes (e # es) out =
     write_elements env nodes es (out @ element_toAdcircString env nodes e @ newline)"

fun write_boundaries :: "Env \<Rightarrow> Node list \<Rightarrow> Boundary list \<Rightarrow> string \<Rightarrow> string" where
  "write_boundaries env nodes [] out = out"
| "write_boundaries env nodes (b # bs) out =
     write_boundaries env nodes bs (write_lines (boundary_toStringList env nodes b) out)"

text \<open>\<^verbatim>\<open>Mesh::writeAdcircMesh\<close>: the content of the output file and the mesh afterwards
  (the two totals are recomputed on the way).\<close>

definition writeAdcircMesh :: "Env \<Rightarrow> Mesh \<Rightarrow> string \<times> Mesh" where
  "writeAdcircMesh env m =
     (let out1 = meshHeaderString m @ newline;
          tempString = format_11i (numElements m) @ '' '' @ format_11i (numNodes m);
          out2 = out1 @ tempString @ newline;
          out3 = write_nodes env (isLatLon m) (m_nodes m) out2;
          out4 = write_elements env (m_nodes m) (m_elements m) out3;
          out5 = out4 @ to_string (numOpenBoundaries m) @ newline;
          (totalOpen, m1) = totalOpenBoundaryNodes m;
          out6 = out5 @ to_string totalOpen @ newline;
          out7 = write_boundaries env (m_nodes m1) (m_openBoundaries m1) out6;
          out8 = out7 @ to_string (numLandBoundaries m1) @ newline;
          (totalLand, m2) = totalLandBoundaryNodes m1;
          out9 = out8 @ to_string totalLand @ newline;
          out10 = write_boundaries env (m_nodes m2) (m_landBoundaries m2) out9
      in (out10, m2))"

section \<open>A mesh object and an instance of the environment\<close>

text \<open>The constructor \<^verbatim>\<open>Mesh::Mesh(filename)\<close>: empty members, \<^verbatim>\<open>m_epsg\<close> at -1, then
  \<^verbatim>\<open>_init\<close>.\<close>

definition new_Mesh :: "string \<Rightarrow> Mesh" where
  "new_Mesh filename =
     init \<lparr>m_filename = filename, m_meshHeaderString = [], m_epsg = - 1, m_isLatLon = False,
           m_numNodes = 0, m_numElements = 0, m_numOpenBoundaries = 0,
           m_numLandBoundaries = 0, m_totalOpenBoundaryNodes = 0,
           m_totalLandBoundaryNodes = 0, m_nodeOrderingLogical = True,
           m_elementOrderingLogical = True, m_nodes = [], m_elements = [],
           m_openBoundaries = [], m_landBoundaries = [],
           m_nodeLookup = Map.empty, m_elementLookup = Map.empty,
           m_nodalSearchTree = None, m_elementalSearchTree = None\<rparr>"

text \<open>
  An instance of the environment on which the readers can be run: fields are
  separated by blanks and every number is a plain decimal numeral (coordinates and
  coefficients too); a vector holds up to a million records. A node line is \<open>id x y z\<close>, an element line
  \<open>id arity n1 n2 n3 [n4]\<close>. The parts of the environment that reading does not use
  are the simplest ones of their type.
\<close>

fun split_blank :: "string \<Rightarrow> string \<Rightarrow> string list" where
  "split_blank cur [] = (if cur = [] then [] else [cur])"
| "split_blank cur (c # cs) =
     (if c = CHR '' '' then (if cur = [] then split_blank [] cs else cur # split_blank [] cs)
      else split_blank (cur @ [c]) cs)"

definition digit_of :: "char \<Rightarrow> nat option" where
  "digit_of c = map_of (zip ''0123456789'' [0..<10]) c"

fun decimal_acc :: "nat \<Rightarrow> string \<Rightarrow> nat option" where
  "decimal_acc acc [] = Some acc"
| "decimal_acc acc (c # cs) =
     (case digit_of c of None \<Rightarrow> None | Some d \<Rightarrow> decimal_acc (10 * acc + d) cs)"

definition decimal :: "string \<Rightarrow> nat option" where
  "decimal s = (if s = [] then None else decimal_acc 0 s)"

fun decimals :: "string list \<Rightarrow> nat list option" where
  "decimals [] = Some []"
| "decimals (s # ss) =
     (case decimal s of
        None \<Rightarrow> None
      | Some n \<Rightarrow> (case decimals ss of None \<Rightarrow> None | Some ns \<Rightarrow> Some (n # ns)))"

definition dec_stringToSizet :: "string \<Rightarrow> size_t \<times> bool" where
  "dec_stringToSizet s = (case decimal s of None \<Rightarrow> (0, False) | Some n \<Rightarrow> (of_nat n, True))"

definition dec_stringToInt :: "string \<Rightarrow> int \<times> bool" where
  "dec_stringToInt s =
     (case s of
        [] \<Rightarrow> (0, False)
      | c # cs \<Rightarrow>
          if c = CHR ''-'' then
            (case decimal cs of None \<Rightarrow> (0, False) | Some n \<Rightarrow> (- int n, True))
          else (case decimal s of None \<Rightarrow> (0, False) | Some n \<Rightarrow> (int n, True)))"

definition dec_nodeFormat :: "string \<Rightarrow> (size_t \<times> double \<times> double \<times> double) option" where
  "dec_nodeFormat l =
     (case decimals (split_blank [] l) of
        Some [i, x, y, z] \<Rightarrow> Some (of_nat i, real x, real y, real z)
      | _ \<Rightarrow> None)"

definition dec_elemFormat :: "string \<Rightarrow> (size_t \<times> size_t list) option" where
  "dec_elemFormat l =
     (case decimals (split_blank [] l) of
        Some (i # a # ns) \<Rightarrow>
          if (a = 3 \<or> a = 4) \<and> length ns = a then Some (of_nat i, map of_nat ns) else None
      | _ \<Rightarrow> None)"

definition dec_boundary0Format :: "string \<Rightarrow> size_t option" where
  "dec_boundary0Format l =
     (case decimals (split_blank [] l) of Some (n1 # _) \<Rightarrow> Some (of_nat n1) | _ \<Rightarrow> None)"

definition dec_boundary23Format :: "string \<Rightarrow> (size_t \<times> double \<times> double) option" where
  "dec_boundary23Format l =
     (case decimals (split_blank [] l) of
        Some [n1, c, s] \<Rightarrow> Some (of_nat n1, real c, real s)
      | _ \<Rightarrow> None)"

definition dec_boundary24Format ::
  "string \<Rightarrow> (size_t \<times> size_t \<times> double \<times> double \<times> double) option" where
  "dec_boundary24Format l =
     (case decimals (split_blank [] l) of
        Some [n1, n2, c, sb, sp] \<Rightarrow> Some (of_nat n1, of_nat n2, real c, real sb, real sp)
      | _ \<Rightarrow> None)"

definition dec_boundary25Format ::
  "string \<Rightarrow> (size_t \<times> size_t \<times> double \<times> double \<times> double \<times> double \<times> double \<times> double) option" where
  "dec_boundary25Format l =
     (case decimals (split_blank [] l) of
        Some [n1, n2, c, sb, sp, ph, pc, pd] \<Rightarrow>
          Some (of_nat n1, of_nat n2, real c, real sb, real sp, real ph, real pc, real pd)
      | _ \<Rightarrow> None)"

definition dec_getFileExtension :: "string \<Rightarrow> string" where
  "dec_getFileExtension name =
     (if CHR ''.'' \<in> set name then CHR ''.'' # rev (takeWhile (\<lambda>c. c \<noteq> CHR ''.'') (rev name))
      else [])"

definition decimal_env :: Env where
  "decimal_env =
     \<lparr>splitString = split_blank [],
      stringToSizet = dec_stringToSizet,
      stringToInt = dec_stringToInt,
      splitStringNodeFormat = dec_nodeFormat,
      splitStringElemFormat = dec_elemFormat,
      splitStringBoundary0Format = dec_boundary0Format,
      splitStringBoundary23Format = dec_boundary23Format,
      splitStringBoundary24Format = dec_boundary24Format,
      splitStringBoundary25Format = dec_boundary25Format,
      getFileExtension = dec_getFileExtension,
      max_size = 1000000,
      Node0 = \<lparr>node_id = 0, node_x = 0, node_y = 0, node_z = 0\<rparr>,
      Element0 = \<lparr>element_id = 0, element_nodes = []\<rparr>,
      Boundary0 = \<lparr>boundaryCode = - 1, boundaryLength = 0, b_node1 = [], b_node2 = [],
                   b_crestElevation = [], b_subcriticalWeirCoeff = [],
                   b_supercriticalWeirCoeff = [], b_pipeHeight = [], b_pipeCoeff = [],
                   b_pipeDiam = []\<rparr>,
      sortVerticiesAboutCenter = (\<lambda>ns e. e),
      isInside = (\<lambda>ns e p. False),
      node_toAdcircString = (\<lambda>latlon n. to_string (node_id n)),
      element_toAdcircString = (\<lambda>ns e. to_string (element_id e)),
      boundary_toStringList = (\<lambda>ns b. [to_string (boundaryLength b)]),
      kd_build = (\<lambda>x y t. (0, t\<lparr>kd_x := x, kd_y := y, kd_initialized := True\<rparr>)),
      kd_NoError = 0,
      kd_new = \<lparr>kd_x = [], kd_y = [], kd_initialized = False\<rparr>,
      kd_findXNearest = (\<lambda>t p k. []),
      read2dmMesh = (\<lambda>fs m. (Inl (Exception ''not available''), m)),
      readDflowMesh = (\<lambda>fs m. (Inl (Exception ''not available''), m))\<rparr>"

text \<open>
  Five native-ASCII files: one with sequential node and element identifiers, an open
  boundary and a land boundary; one whose element identifiers alone are out of order;
  one whose node and element identifiers are arbitrary; one whose second element record
  lacks a vertex; one whose third node record is not a node record.
\<close>

definition example_fs :: filesystem where
  "example_fs name =
     (if name = ''sequential.14'' then
        Some (unlines [''two triangles'', ''2 4'',
              ''1 0 0 5'', ''2 1 0 5'', ''3 0 1 5'', ''4 1 1 5'',
              ''1 3 1 2 3'', ''2 3 2 4 3'',
              ''1'', ''2'', ''2'', ''1'', ''2'',
              ''1'', ''2'', ''2 0'', ''3'', ''4''])
      else if name = ''elements.14'' then
        Some (unlines [''two triangles'', ''2 4'',
              ''1 0 0 5'', ''2 1 0 5'', ''3 0 1 5'', ''4 1 1 5'',
              ''2 3 1 2 3'', ''1 3 2 4 3'',
              ''0'', ''0'', ''0'', ''0''])
      else if name = ''shuffled.14'' then
        Some (unlines [''two triangles'', ''2 4'',
              ''20 0 0 5'', ''10 1 0 5'', ''40 0 1 5'', ''30 1 1 5'',
              ''5 3 20 10 40'', ''4 3 10 30 40'',
              ''0'', ''0'', ''0'', ''0''])
      else if name = ''broken.14'' then
        Some (unlines [''two triangles'', ''2 4'',
              ''1 0 0 5'', ''2 1 0 5'', ''3 0 1 5'', ''4 1 1 5'',
              ''1 3 1 2 3'', ''2 3 2 4''])
      else if name = ''nodes.14'' then
        Some (unlines [''two triangles'', ''2 4'',
              ''1 0 0 5'', ''2 1 0 5'', ''3 0 one 5'', ''4 1 1 5''])
      else None)"

definition sequential_mesh :: Mesh where
  "sequential_mesh = snd (read decimal_env example_fs MESH_UNKNOWN (new_Mesh ''sequential.14''))"

definition shuffled_mesh :: Mesh where
  "shuffled_mesh = snd (read decimal_env example_fs MESH_ADCIRC (new_Mesh ''shuffled.14''))"

definition broken_mesh :: Mesh where
  "broken_mesh = snd (read decimal_env example_fs MESH_ADCIRC (new_Mesh ''broken.14''))"


text \<open>
  The node records at the head of a stream: the nodes that the next \<open>n\<close> lines give,
  up to the first line that is not a node record.
\<close>

fun parsed_nodes :: "Env \<Rightarrow> nat \<Rightarrow> fstream \<Rightarrow> Node list" where
  "parsed_nodes env 0 fid = []"
| "parsed_nodes env (Suc n) fid =
     (let (tempLine, fid1) = getline fid []
      in case splitStringNodeFormat env tempLine of
           None \<Rightarrow> []
         | Some (nid, x, y, z) \<Rightarrow>
             \<lparr>node_id = nid, node_x = x, node_y = y, node_z = z\<rparr> # parsed_nodes env n fid1)"

text \<open>
  Two relations used to follow a read through its sections. \<open>frame m m'\<close>: going from
  \<open>m\<close> to \<open>m'\<close> leaves the node storage, the node count, the node ordering flag and
  the pointer to the element search tree as they are and only adds keys to the node
  lookup table. \<open>lookup_ok m\<close>: the node
  lookup table sends the identifier of every stored node to a position that holds a node
  with that identifier.
\<close>

definition frame :: "Mesh \<Rightarrow> Mesh \<Rightarrow> bool" where
  "frame m m' \<longleftrightarrow>
     m_nodes m' = m_nodes m \<and> m_numNodes m' = m_numNodes m \<and>
     m_nodeOrderingLogical m' = m_nodeOrderingLogical m \<and>
     m_elementalSearchTree m' = m_elementalSearchTree m \<and>
     m_nodeLookup m \<subseteq>\<^sub>m m_nodeLookup m'"

definition lookup_ok :: "Mesh \<Rightarrow> bool" where
  "lookup_ok m \<longleftrightarrow>
     (\<forall>n\<in>set (m_nodes m). \<exists>p. m_nodeLookup m (node_id n) = Some p \<and>
         unat p < length (m_nodes m) \<and> node_id (m_nodes m ! unat p) = node_id n)"

text \<open>
  The layout the specification gives for a native-ASCII file, line by line: the header,
  the two counts, the nodes, the elements, the open-boundary block (count, total number
  of nodes, the records of each boundary) and the land-boundary block built the same
  way.
\<close>

definition adcirc_layout :: "Env \<Rightarrow> Mesh \<Rightarrow> string list" where
  "adcirc_layout env m =
     [meshHeaderString m, format_11i (numElements m) @ '' '' @ format_11i (numNodes m)] @
     map (node_toAdcircString env (isLatLon m)) (m_nodes m) @
     map (element_toAdcircString env (m_nodes m)) (m_elements m) @
     [to_string (numOpenBoundaries m), to_string (sum_list (map b_length (m_openBoundaries m)))] @
     concat (map (boundary_toStringList env (m_nodes m)) (m_openBoundaries m)) @
     [to_string (numLandBoundaries m), to_string (sum_list (map b_length (m_landBoundaries m)))] @
     concat (map (boundary_toStringList env (m_nodes m)) (m_landBoundaries m))"

text \<open>
  An environment for point location: the nearest-neighbour query answers with the
  first \<open>k\<close> positions of the indexed point set, and the containment test accepts
  element 2. \<open>indexed_mesh\<close> is the sequential example mesh after a call of
  \<^verbatim>\<open>buildElementalSearchTree\<close>.
\<close>

definition locating_env :: Env where
  "locating_env =
     decimal_env\<lparr>kd_findXNearest := (\<lambda>t p k. map of_nat [0..<min (nat k) (length (kd_x t))]),
                 isInside := (\<lambda>ns e p. element_id e = 2)\<rparr>"

definition indexed_mesh :: Mesh where
  "indexed_mesh =
     snd (buildElementalSearchTree locating_env sequential_mesh)"




section \<open>Properties\<close>

subsection \<open>The example meshes\<close>

lemma sequential_mesh_counts:
  "m_numNodes sequential_mesh = 4" "length (m_nodes sequential_mesh) = 4"
  "m_numElements sequential_mesh = 2" "length (m_elements sequential_mesh) = 2"
  unfolding sequential_mesh_def by code_simp+

subsection \<open>What each section of a read changes\<close>

lemma frame_refl [simp]: "frame m m"
  by (simp add: frame_def)

lemma frame_trans: "frame m m1 \<Longrightarrow> frame m1 m2 \<Longrightarrow> frame m m2"
  by (auto simp: frame_def intro: map_le_trans)

lemma subscript_map_le: "subscript lk k = (v, lk') \<Longrightarrow> lk \<subseteq>\<^sub>m lk'"
  by (auto simp: subscript_def map_le_def split: option.splits)

lemma nodeLookup_at_frame: "nodeLookup_at m k = (p, m') \<Longrightarrow> frame m m'"
  by (auto simp: nodeLookup_at_def frame_def split: prod.splits dest: subscript_map_le)

lemma node_pointer_frame: "node_pointer m k = (p, m') \<Longrightarrow> frame m m'"
  by (auto simp: node_pointer_def split: if_splits dest: nodeLookup_at_frame)

lemma upd_element_frame [simp]: "frame m (upd_element k f m)"
  by (simp add: upd_element_def frame_def)

lemma upd_open_frame [simp]: "frame m (upd_open k f m)"
  by (simp add: upd_open_def frame_def)

lemma upd_land_frame [simp]: "frame m (upd_land k f m)"
  by (simp add: upd_land_def frame_def)

lemma frame_upd_element: "frame m m1 \<Longrightarrow> frame m (upd_element k f m1)"
  by (simp add: upd_element_def frame_def)

lemma frame_upd_open: "frame m m1 \<Longrightarrow> frame m (upd_open k f m1)"
  by (simp add: upd_open_def frame_def)

lemma frame_upd_land: "frame m m1 \<Longrightarrow> frame m (upd_land k f m1)"
  by (simp add: upd_land_def frame_def)

lemma frame_elementFlag: "frame m (m\<lparr>m_elementOrderingLogical := b\<rparr>)"
  by (simp add: frame_def)

lemma readAdcircElements_loop1_frame:
  "readAdcircElements_loop1 env ks tempLine fid m = (r, m') \<Longrightarrow> frame m m'"
proof (induction ks arbitrary: tempLine fid m)
  case Nil
  then show ?case by simp
next
  case (Cons k ks)
  show ?case
  proof (cases "splitStringElemFormat env (fst (getline fid tempLine))")
    case None
    with Cons.prems show ?thesis by (simp add: case_prod_beta)
  next
    case (Some a)
    obtain eid n where a: "a = (eid, n)" by (cases a)
    from Cons.prems Some a obtain m1 where
      step: "readAdcircElements_loop1 env ks (fst (getline fid tempLine))
               (snd (getline fid tempLine)) m1 = (r, m')"
      and m1: "frame m m1"
      by (auto simp: case_prod_beta Let_def split: if_splits)
    from Cons.IH [OF step] m1 show ?thesis by (rule frame_trans [rotated])
  qed
qed

lemma readAdcircElements_loop2_frame:
  "readAdcircElements_loop2 env ks i tempLine fid m = (r, m') \<Longrightarrow> frame m m'"
proof (induction ks arbitrary: i tempLine fid m)
  case Nil
  then show ?case by simp
next
  case (Cons k ks)
  show ?case
  proof (cases "splitStringElemFormat env (fst (getline fid tempLine))")
    case None
    with Cons.prems show ?thesis by (simp add: case_prod_beta)
  next
    case (Some a)
    obtain eid n where a: "a = (eid, n)" by (cases a)
    define m0 where "m0 = (if i \<noteq> eid - 1 then m\<lparr>m_elementOrderingLogical := False\<rparr> else m)"
    have m0: "frame m m0" by (simp add: m0_def frame_def)
    have look: "frame x (snd (nodeLookup_at x k'))" for x k'
      by (rule nodeLookup_at_frame [of x k' "fst (nodeLookup_at x k')"]) simp
    define m2 where "m2 =
                (if length n = 3 then
                   (let (p0, ma) = nodeLookup_at m0 (n ! 0);
                        (p1, mb) = nodeLookup_at ma (n ! 1);
                        (p2, mc) = nodeLookup_at mb (n ! 2)
                    in upd_element k (setElement eid [p0, p1, p2]) mc)
                 else if length n = 4 then
                   (let (p0, ma) = nodeLookup_at m0 (n ! 0);
                        (p1, mb) = nodeLookup_at ma (n ! 1);
                        (p2, mc) = nodeLookup_at mb (n ! 2);
                        (p3, md) = nodeLookup_at mc (n ! 3)
                    in upd_element k (setElement eid [p0, p1, p2, p3]) md)
                 else m0)"
    have look2: "frame x (snd (nodeLookup_at (snd (nodeLookup_at x a)) b))" for x a b
      by (rule frame_trans [OF look look])
    have look3: "frame x (snd (nodeLookup_at (snd (nodeLookup_at (snd (nodeLookup_at x a)) b)) c))"
      for x a b c
      by (rule frame_trans [OF look2 look])
    have look4: "frame x (snd (nodeLookup_at (snd (nodeLookup_at (snd (nodeLookup_at
                   (snd (nodeLookup_at x a)) b)) c)) d))"
      for x a b c d
      by (rule frame_trans [OF look3 look])
    have m2: "frame m0 m2"
      unfolding m2_def
      by (simp add: case_prod_beta Let_def frame_upd_element look3 look4)
    from Cons.prems Some a have
      step: "readAdcircElements_loop2 env ks (i + 1) (fst (getline fid tempLine))
        (snd (getline fid tempLine)) m2 = (r, m')"
      by (simp add: case_prod_beta Let_def m0_def m2_def cong: if_cong)
    from Cons.IH [OF step] m0 m2 show ?thesis by (blast intro: frame_trans)
  qed
qed

lemma elementLookup_fill_frame: "frame m (elementLookup_fill is m)"
proof (induction "is" arbitrary: m)
  case Nil
  show ?case by simp
next
  case (Cons i "is")
  have "frame m (m\<lparr>m_elementLookup := (m_elementLookup m)(element_id (m_elements m ! i) \<mapsto> of_nat i)\<rparr>)"
    by (simp add: frame_def)
  then show ?case using Cons.IH by (auto intro: frame_trans)
qed

lemma readAdcircElements_frame:
  assumes "readAdcircElements env fid m = (r, m')"
  shows "frame m m'"
proof (cases "resize (max_size env) (Element0 env) (numElements m) (m_elements m)")
  case (Inl e)
  with assms show ?thesis by (simp add: readAdcircElements_def)
next
  case (Inr es)
  define m1 where "m1 = m\<lparr>m_elements := es\<rparr>"
  have f1: "frame m m1" by (simp add: m1_def frame_def)
  obtain r2 m2 where l: "(if m_nodeOrderingLogical m1
               then readAdcircElements_loop1 env [0..<length (m_elements m1)] [] fid m1
               else readAdcircElements_loop2 env [0..<length (m_elements m1)] 0 [] fid m1) = (r2, m2)"
    by (cases "(if m_nodeOrderingLogical m1
               then readAdcircElements_loop1 env [0..<length (m_elements m1)] [] fid m1
               else readAdcircElements_loop2 env [0..<length (m_elements m1)] 0 [] fid m1)")
  then have f2: "frame m1 m2"
    by (auto split: if_splits dest: readAdcircElements_loop1_frame readAdcircElements_loop2_frame)
  have "readAdcircElements env fid m =
      (case (r2, m2) of
         (Inl e, m2) \<Rightarrow> (Inl e, m2)
       | (Inr fid1, m2) \<Rightarrow>
           if \<not> m_elementOrderingLogical m2
           then (Inr fid1, elementLookup_fill [0..<unat (m_numElements m2)] m2)
           else (Inr fid1, m2))"
    unfolding l [symmetric] by (simp add: readAdcircElements_def Inr m1_def Let_def)
  with assms have "m' = m2 \<or> m' = elementLookup_fill [0..<unat (m_numElements m2)] m2"
    by (auto split: sum.splits if_splits)
  then have "frame m2 m'" by (auto intro: elementLookup_fill_frame)
  with f1 f2 show ?thesis by (blast intro: frame_trans)
qed

lemma readAdcircOpenBoundaries_nodes_frame:
  "readAdcircOpenBoundaries_nodes env js k tempLine fid m = (r, m') \<Longrightarrow> frame m m'"
proof (induction js arbitrary: tempLine fid m)
  case Nil
  then show ?case by simp
next
  case (Cons j js)
  show ?case
  proof (cases "splitStringBoundary0Format env (fst (getline fid tempLine))")
    case None
    with Cons.prems show ?thesis by (simp add: case_prod_beta)
  next
    case (Some nid)
    have np: "frame m (snd (node_pointer m nid))"
      by (rule node_pointer_frame [of m nid "fst (node_pointer m nid)"]) simp
    from Cons.prems Some obtain m1 where
      step: "readAdcircOpenBoundaries_nodes env js k (fst (getline fid tempLine))
               (snd (getline fid tempLine)) m1 = (r, m')"
      and m1: "frame m m1"
      by (auto simp: case_prod_beta Let_def intro!: frame_upd_open np)
    from Cons.IH [OF step] m1 show ?thesis by (blast intro: frame_trans)
  qed
qed

lemma readAdcircOpenBoundaries_loop_frame:
  "readAdcircOpenBoundaries_loop env ks tempLine fid m = (r, m') \<Longrightarrow> frame m m'"
proof (induction ks arbitrary: tempLine fid m)
  case Nil
  then show ?case by simp
next
  case (Cons k ks)
  let ?l = "fst (getline fid tempLine)" and ?f = "snd (getline fid tempLine)"
  show ?case
  proof (cases "splitString env ?l")
    case Nil
    with Cons.prems show ?thesis by (simp add: case_prod_beta)
  next
    case (Cons t0 rest)
    obtain len ok where so: "stringToSizet env t0 = (len, ok)" by (cases "stringToSizet env t0")
    show ?thesis
    proof (cases "setBoundary (max_size env) (- 1) len (m_openBoundaries m ! k)")
      case (Inl e)
      with Cons.prems Cons so show ?thesis
        by (cases ok) (simp_all add: case_prod_beta)
    next
      case (Inr b)
      show ?thesis
      proof (cases ok)
        case False
        with Cons.prems Cons so show ?thesis by (simp add: case_prod_beta)
      next
        case True
        define m1 where "m1 = upd_open k (\<lambda>_. b) m"
        have f1: "frame m m1" by (simp add: m1_def)
        obtain r2 m2 where inner: "readAdcircOpenBoundaries_nodes env
              [0..<unat (b_length (m_openBoundaries m1 ! k))] k ?l ?f m1 = (r2, m2)"
          by (cases "readAdcircOpenBoundaries_nodes env
              [0..<unat (b_length (m_openBoundaries m1 ! k))] k ?l ?f m1")
        then have f2: "frame m1 m2" by (rule readAdcircOpenBoundaries_nodes_frame)
        from Cons.prems Cons so True Inr inner
        have "m' = m2 \<or> (\<exists>l2 fid2. readAdcircOpenBoundaries_loop env ks l2 fid2 m2 = (r, m'))"
          by (auto simp: case_prod_beta Let_def m1_def [symmetric] split: sum.splits)
        then have "frame m2 m'" using Cons.IH by auto
        with f1 f2 show ?thesis by (blast intro: frame_trans)
      qed
    qed
  qed
qed

lemma readAdcircOpenBoundaries_frame:
  assumes "readAdcircOpenBoundaries env fid m = (r, m')"
  shows "frame m m'"
proof (cases "splitString env (fst (getline fid []))")
  case Nil
  with assms show ?thesis by (simp add: readAdcircOpenBoundaries_def case_prod_beta)
next
  case (Cons t0 rest)
  obtain v ok where so: "stringToSizet env t0 = (v, ok)" by (cases "stringToSizet env t0")
  define m1 where "m1 = setNumOpenBoundaries v m"
  have f1: "frame m m1" by (simp add: m1_def setNumOpenBoundaries_def frame_def)
  show ?thesis
  proof (cases "resize (max_size env) (Boundary0 env) (numOpenBoundaries m1)
                  (m_openBoundaries m1)")
    case (Inl e)
    with assms Cons so f1 show ?thesis
      by (cases ok) (simp_all add: readAdcircOpenBoundaries_def case_prod_beta m1_def)
  next
    case (Inr bs)
    show ?thesis
    proof (cases ok)
      case False
      with assms Cons so f1 show ?thesis
        by (simp add: readAdcircOpenBoundaries_def case_prod_beta m1_def)
    next
      case True
      define m2 where "m2 = m1\<lparr>m_openBoundaries := bs\<rparr>"
      have f2: "frame m m2" using f1 by (simp add: m2_def frame_def)
      obtain r3 m3 where L: "readAdcircOpenBoundaries_loop env
               [0..<length (m_openBoundaries m2)]
               (fst (getline (snd (getline fid [])) (fst (getline fid []))))
               (snd (getline (snd (getline fid [])) (fst (getline fid [])))) m2 = (r3, m3)"
        by (cases "readAdcircOpenBoundaries_loop env
               [0..<length (m_openBoundaries m2)]
               (fst (getline (snd (getline fid [])) (fst (getline fid []))))
               (snd (getline (snd (getline fid [])) (fst (getline fid [])))) m2")
      have "readAdcircOpenBoundaries env fid m =
          (case (r3, m3) of
             (Inl e, m3) \<Rightarrow> (Inl e, m3)
           | (Inr (tempLine3, fid3), m3) \<Rightarrow> (Inr fid3, m3))"
        unfolding L [symmetric]
        by (simp add: readAdcircOpenBoundaries_def case_prod_beta Let_def Cons so True Inr
              m1_def [symmetric] m2_def [symmetric])
      with assms have "m' = m3" by (auto split: sum.splits)
      with L have "frame m2 m'" by (auto dest: readAdcircOpenBoundaries_loop_frame)
      with f2 show ?thesis by (blast intro: frame_trans)
    qed
  qed
qed

lemma node_pointer_frame': "frame m (snd (node_pointer m nid))"
  by (rule node_pointer_frame [of m nid "fst (node_pointer m nid)"]) simp

lemma frame_step_land: "frame m m1 \<Longrightarrow> frame m (upd_land k f m1)"
  by (rule frame_upd_land)

lemma frame_step_pointer: "frame m m1 \<Longrightarrow> frame m (snd (node_pointer m1 nid))"
  by (erule frame_trans) (rule node_pointer_frame')

lemma readAdcircLandBoundaries_node_frame:
  assumes "readAdcircLandBoundaries_node env code j k l m = (r, m')"
  shows "frame m m'"
  using assms unfolding readAdcircLandBoundaries_node_def
  by (auto simp: case_prod_beta Let_def split: if_splits option.splits
        intro!: frame_step_land frame_step_pointer)

lemma readAdcircLandBoundaries_nodes_frame:
  "readAdcircLandBoundaries_nodes env code js k tempLine fid m = (r, m') \<Longrightarrow> frame m m'"
proof (induction js arbitrary: tempLine fid m)
  case Nil
  then show ?case by simp
next
  case (Cons j js)
  let ?l = "fst (getline fid tempLine)" and ?f = "snd (getline fid tempLine)"
  obtain r1 m1 where one:
    "readAdcircLandBoundaries_node env code j k ?l m = (r1, m1)"
    by (cases "readAdcircLandBoundaries_node env code j k ?l m")
  then have f1: "frame m m1" by (rule readAdcircLandBoundaries_node_frame)
  from Cons.prems one
  have "m' = m1 \<or> readAdcircLandBoundaries_nodes env code js k ?l ?f m1 = (r, m')"
    by (auto simp: case_prod_beta split: sum.splits)
  then have "frame m1 m'" using Cons.IH by auto
  with f1 show ?case by (blast intro: frame_trans)
qed

lemma readAdcircLandBoundaries_loop_frame:
  "readAdcircLandBoundaries_loop env ks tempLine fid m = (r, m') \<Longrightarrow> frame m m'"
proof (induction ks arbitrary: tempLine fid m)
  case Nil
  then show ?case by simp
next
  case (Cons k ks)
  let ?l = "fst (getline fid tempLine)" and ?f = "snd (getline fid tempLine)"
  show ?case
  proof (cases "splitString env ?l")
    case Nil
    with Cons.prems show ?thesis by (simp add: case_prod_beta)
  next
    case outer: (Cons t0 rest)
    obtain len ok where so: "stringToSizet env t0 = (len, ok)" by (cases "stringToSizet env t0")
    show ?thesis
    proof (cases "ok \<and> rest \<noteq> []")
      case False
      with Cons.prems outer so show ?thesis
        by (cases rest) (auto simp: case_prod_beta split: if_splits)
    next
      case True
      then obtain t1 rest' where rest: "rest = t1 # rest'" by (cases rest) auto
      obtain code ok2 where si: "stringToInt env t1 = (code, ok2)" by (cases "stringToInt env t1")
      show ?thesis
      proof (cases "setBoundary (max_size env) code len (m_landBoundaries m ! k)")
        case (Inl e)
        with Cons.prems outer so True rest si show ?thesis
          by (cases ok2) (simp_all add: case_prod_beta)
      next
        case (Inr b)
        show ?thesis
        proof (cases ok2)
          case False
          with Cons.prems outer so True rest si show ?thesis by (simp add: case_prod_beta)
        next
          case ok2: True
          define m1 where "m1 = upd_land k (\<lambda>_. b) m"
          have f1: "frame m m1" by (simp add: m1_def)
          obtain r2 m2 where inner: "readAdcircLandBoundaries_nodes env code
              [0..<unat (b_length (m_landBoundaries m1 ! k))] k ?l ?f m1 = (r2, m2)"
            by (cases "readAdcircLandBoundaries_nodes env code
              [0..<unat (b_length (m_landBoundaries m1 ! k))] k ?l ?f m1")
          then have f2: "frame m1 m2" by (rule readAdcircLandBoundaries_nodes_frame)
          from Cons.prems outer so True rest si ok2 Inr inner
          have "m' = m2 \<or> (\<exists>l2 fid2. readAdcircLandBoundaries_loop env ks l2 fid2 m2 = (r, m'))"
            by (auto simp: case_prod_beta Let_def m1_def [symmetric] split: sum.splits)
          then have "frame m2 m'" using Cons.IH by auto
          with f1 f2 show ?thesis by (blast intro: frame_trans)
        qed
      qed
    qed
  qed
qed

lemma readAdcircLandBoundaries_frame:
  assumes "readAdcircLandBoundaries env fid m = (r, m')"
  shows "frame m m'"
proof (cases "splitString env (fst (getline fid []))")
  case Nil
  with assms show ?thesis by (simp add: readAdcircLandBoundaries_def case_prod_beta)
next
  case (Cons t0 rest)
  obtain v ok where so: "stringToSizet env t0 = (v, ok)" by (cases "stringToSizet env t0")
  define m1 where "m1 = setNumLandBoundaries v m"
  have f1: "frame m m1" by (simp add: m1_def setNumLandBoundaries_def frame_def)
  show ?thesis
  proof (cases "resize (max_size env) (Boundary0 env) (numLandBoundaries m1)
                  (m_landBoundaries m1)")
    case (Inl e)
    with assms Cons so f1 show ?thesis
      by (cases ok) (simp_all add: readAdcircLandBoundaries_def case_prod_beta m1_def)
  next
    case (Inr bs)
    show ?thesis
    proof (cases ok)
      case False
      with assms Cons so f1 show ?thesis
        by (simp add: readAdcircLandBoundaries_def case_prod_beta m1_def)
    next
      case True
      define m2 where "m2 = m1\<lparr>m_landBoundaries := bs\<rparr>"
      have f2: "frame m m2" using f1 by (simp add: m2_def frame_def)
      obtain r3 m3 where L: "readAdcircLandBoundaries_loop env
               [0..<length (m_landBoundaries m2)]
               (fst (getline (snd (getline fid [])) (fst (getline fid []))))
               (snd (getline (snd (getline fid [])) (fst (getline fid [])))) m2 = (r3, m3)"
        by (cases "readAdcircLandBoundaries_loop env
               [0..<length (m_landBoundaries m2)]
               (fst (getline (snd (getline fid [])) (fst (getline fid []))))
               (snd (getline (snd (getline fid [])) (fst (getline fid [])))) m2")
      have "readAdcircLandBoundaries env fid m =
          (case (r3, m3) of
             (Inl e, m3) \<Rightarrow> (Inl e, m3)
           | (Inr (tempLine3, fid3), m3) \<Rightarrow> (Inr fid3, m3))"
        unfolding L [symmetric]
        by (simp add: readAdcircLandBoundaries_def case_prod_beta Let_def Cons so True Inr
              m1_def [symmetric] m2_def [symmetric])
      with assms have "m' = m3" by (auto split: sum.splits)
      with L have "frame m2 m'" by (auto dest: readAdcircLandBoundaries_loop_frame)
      with f2 show ?thesis by (blast intro: frame_trans)
    qed
  qed
qed

lemma readAdcircNodes_loop_shape:
  "readAdcircNodes_loop env ks i fid m = (r, m') \<Longrightarrow>
   length (m_nodes m') = length (m_nodes m) \<and> m_numNodes m' = m_numNodes m \<and>
   m_elements m' = m_elements m \<and> m_openBoundaries m' = m_openBoundaries m \<and>
   m_landBoundaries m' = m_landBoundaries m \<and>
   m_elementalSearchTree m' = m_elementalSearchTree m"
proof (induction ks arbitrary: i fid m)
  case Nil
  then show ?case by simp
next
  case (Cons k ks)
  show ?case
  proof (cases "splitStringNodeFormat env (fst (getline fid []))")
    case None
    with Cons.prems show ?thesis by (simp add: case_prod_beta)
  next
    case (Some a)
    from Cons.prems Some obtain m2 where
      step: "readAdcircNodes_loop env ks (i + 1) (snd (getline fid [])) m2 = (r, m')"
      and shape: "length (m_nodes m2) = length (m_nodes m)" "m_numNodes m2 = m_numNodes m"
        "m_elements m2 = m_elements m" "m_openBoundaries m2 = m_openBoundaries m"
        "m_landBoundaries m2 = m_landBoundaries m"
        "m_elementalSearchTree m2 = m_elementalSearchTree m"
      by (auto simp: case_prod_beta Let_def split: if_splits)
    from Cons.IH [OF step] shape show ?thesis by simp
  qed
qed

lemma nodeLookup_fill_lookup:
  "\<forall>i\<in>set is. i < length (m_nodes m) \<and> i < 2 ^ 64 \<Longrightarrow>
   m_nodes (nodeLookup_fill is m) = m_nodes m \<and>
   m_numNodes (nodeLookup_fill is m) = m_numNodes m \<and>
   m_nodeOrderingLogical (nodeLookup_fill is m) = m_nodeOrderingLogical m \<and>
   m_elements (nodeLookup_fill is m) = m_elements m \<and>
   m_openBoundaries (nodeLookup_fill is m) = m_openBoundaries m \<and>
   m_landBoundaries (nodeLookup_fill is m) = m_landBoundaries m \<and>
   m_elementalSearchTree (nodeLookup_fill is m) = m_elementalSearchTree m \<and>
   (\<forall>k. (\<exists>i\<in>set is. node_id (m_nodes m ! i) = k) \<longrightarrow>
        (\<exists>p. m_nodeLookup (nodeLookup_fill is m) k = Some p \<and> unat p < length (m_nodes m) \<and>
             node_id (m_nodes m ! unat p) = k)) \<and>
   (\<forall>k. (\<forall>i\<in>set is. node_id (m_nodes m ! i) \<noteq> k) \<longrightarrow>
        m_nodeLookup (nodeLookup_fill is m) k = m_nodeLookup m k)"
proof (induction "is" arbitrary: m)
  case Nil
  then show ?case by simp
next
  case (Cons i "is")
  define m1 where "m1 = m\<lparr>m_nodeLookup := (m_nodeLookup m)(node_id (m_nodes m ! i) \<mapsto> of_nat i)\<rparr>"
  have nodes1: "m_nodes m1 = m_nodes m" by (simp add: m1_def)
  from Cons.prems have pre: "\<forall>i\<in>set is. i < length (m_nodes m1) \<and> i < 2 ^ 64"
    by (simp add: nodes1)
  note IH = Cons.IH [OF pre, unfolded nodes1]
  have fill: "nodeLookup_fill (i # is) m = nodeLookup_fill is m1" by (simp add: m1_def)
  from Cons.prems have i: "i < length (m_nodes m)" "i < 2 ^ 64" by simp_all
  have ui: "unat (of_nat i :: size_t) = i"
    using i(2) by (simp add: unat_of_nat)
  show ?case
    unfolding fill
  proof (intro conjI allI impI)
    fix k assume "\<exists>j\<in>set (i # is). node_id (m_nodes m ! j) = k"
    then consider "\<exists>j\<in>set is. node_id (m_nodes m ! j) = k"
      | "\<forall>j\<in>set is. node_id (m_nodes m ! j) \<noteq> k" "node_id (m_nodes m ! i) = k" by auto
    then show "\<exists>p. m_nodeLookup (nodeLookup_fill is m1) k = Some p \<and> unat p < length (m_nodes m) \<and>
             node_id (m_nodes m ! unat p) = k"
    proof cases
      case 1
      with IH show ?thesis by blast
    next
      case 2
      with IH have "m_nodeLookup (nodeLookup_fill is m1) k = m_nodeLookup m1 k" by blast
      also have "\<dots> = Some (of_nat i)" using 2(2) by (simp add: m1_def)
      finally show ?thesis using i ui 2(2) by simp
    qed
  next
    fix k assume a: "\<forall>j\<in>set (i # is). node_id (m_nodes m ! j) \<noteq> k"
    then have "m_nodeLookup (nodeLookup_fill is m1) k = m_nodeLookup m1 k" using IH by simp
    also have "\<dots> = m_nodeLookup m k" using a by (auto simp: m1_def)
    finally show "m_nodeLookup (nodeLookup_fill is m1) k = m_nodeLookup m k" .
  qed (use IH in \<open>simp_all add: m1_def\<close>)
qed

lemma length_resized [simp]: "length (resized d n xs) = n"
  by (simp add: resized_def)

lemma resized_Nil [simp]: "resized d n [] = replicate n d"
  by (simp add: resized_def)

lemma readAdcircMeshHeader_shape:
  assumes "readAdcircMeshHeader env fid m = (r, m')"
  shows "m_nodes m' = m_nodes m \<and> m_elements m' = m_elements m \<and>
         m_openBoundaries m' = m_openBoundaries m \<and> m_landBoundaries m' = m_landBoundaries m \<and>
         m_filename m' = m_filename m \<and>
         m_elementalSearchTree m' = m_elementalSearchTree m \<and>
         ((\<exists>e. r = Inl e) \<longrightarrow> m_numNodes m' = m_numNodes m)"
  using assms unfolding readAdcircMeshHeader_def
  by (auto simp: case_prod_beta Let_def setMeshHeaderString_def setNumElements_def
        setNumNodes_def split: list.splits if_splits)

text \<open>
  The ways through \<^verbatim>\<open>readAdcircNodes\<close>: the storage cannot be allocated; a node record
  fails; all records are read and, when the ordering is not sequential, the lookup table
  is filled.
\<close>

lemma readAdcircNodes_cases:
  assumes "readAdcircNodes env fid m = (r, m')"
  obtains (alloc_failed) "\<not> numNodes m \<le> max_size env" "r = Inl Alloc_error" "m' = m"
  | (record_failed) e where "numNodes m \<le> max_size env" "r = Inl e"
      "readAdcircNodes_loop env [0..<unat (numNodes m)] 0 fid
         (m\<lparr>m_nodes := resized (Node0 env) (unat (numNodes m)) (m_nodes m)\<rparr>) = (Inl e, m')"
  | (all_read) fid1 m2 where "numNodes m \<le> max_size env" "r = Inr fid1"
      "readAdcircNodes_loop env [0..<unat (numNodes m)] 0 fid
         (m\<lparr>m_nodes := resized (Node0 env) (unat (numNodes m)) (m_nodes m)\<rparr>) = (Inr fid1, m2)"
      "m' = (if \<not> m_nodeOrderingLogical m2
             then nodeLookup_fill [0..<unat (m_numNodes m2)] m2 else m2)"
proof (cases "numNodes m \<le> max_size env")
  case False
  with assms have "r = Inl Alloc_error" "m' = m"
    by (simp_all add: readAdcircNodes_def resize_def)
  with False show thesis by (rule alloc_failed)
next
  case True
  define m1 where "m1 = m\<lparr>m_nodes := resized (Node0 env) (unat (numNodes m)) (m_nodes m)\<rparr>"
  obtain r2 m2 where l: "readAdcircNodes_loop env [0..<unat (numNodes m)] 0 fid m1 = (r2, m2)"
    by (cases "readAdcircNodes_loop env [0..<unat (numNodes m)] 0 fid m1")
  have unfold: "readAdcircNodes env fid m =
      (case (r2, m2) of
         (Inl e, m2) \<Rightarrow> (Inl e, m2)
       | (Inr fid1, m2) \<Rightarrow>
           if \<not> m_nodeOrderingLogical m2
           then (Inr fid1, nodeLookup_fill [0..<unat (m_numNodes m2)] m2)
           else (Inr fid1, m2))"
    unfolding l [symmetric]
    by (simp add: readAdcircNodes_def resize_def True Let_def m1_def)
  show thesis
  proof (cases r2)
    case (Inl e)
    with unfold assms have "r = Inl e" "m' = m2" by simp_all
    with True l Inl show thesis unfolding m1_def by (intro record_failed) simp_all
  next
    case (Inr fid1)
    with unfold assms have "r = Inr fid1"
      "m' = (if \<not> m_nodeOrderingLogical m2
             then nodeLookup_fill [0..<unat (m_numNodes m2)] m2 else m2)"
      by (simp_all split: if_splits)
    with True l Inr show thesis unfolding m1_def by (intro all_read) simp_all
  qed
qed

lemma nodeLookup_fill_shape:
  assumes "length (m_nodes m) = unat (m_numNodes m)"
  shows "m_nodes (nodeLookup_fill [0..<unat (m_numNodes m)] m) = m_nodes m"
    "m_numNodes (nodeLookup_fill [0..<unat (m_numNodes m)] m) = m_numNodes m"
    "m_nodeOrderingLogical (nodeLookup_fill [0..<unat (m_numNodes m)] m) = m_nodeOrderingLogical m"
    "m_elementalSearchTree (nodeLookup_fill [0..<unat (m_numNodes m)] m) = m_elementalSearchTree m"
proof -
  have pre: "\<forall>i\<in>set [0..<unat (m_numNodes m)]. i < length (m_nodes m) \<and> i < 2 ^ 64"
    using assms unsigned_less [of "m_numNodes m", where ?'a = nat] by auto
  from nodeLookup_fill_lookup [OF pre]
  show "m_nodes (nodeLookup_fill [0..<unat (m_numNodes m)] m) = m_nodes m"
    "m_numNodes (nodeLookup_fill [0..<unat (m_numNodes m)] m) = m_numNodes m"
    "m_nodeOrderingLogical (nodeLookup_fill [0..<unat (m_numNodes m)] m) = m_nodeOrderingLogical m"
    "m_elementalSearchTree (nodeLookup_fill [0..<unat (m_numNodes m)] m) = m_elementalSearchTree m"
    by simp_all
qed

lemma readAdcircNodes_shape:
  assumes "readAdcircNodes env fid m = (r, m')"
  shows "m_numNodes m' = m_numNodes m \<and> m_elementalSearchTree m' = m_elementalSearchTree m \<and>
         (numNodes m \<le> max_size env \<longrightarrow> length (m_nodes m') = unat (m_numNodes m)) \<and>
         (\<not> numNodes m \<le> max_size env \<longrightarrow> m_nodes m' = m_nodes m \<and> r = Inl Alloc_error)"
  using assms
proof (cases rule: readAdcircNodes_cases)
  case alloc_failed
  then show ?thesis by simp
next
  case (record_failed e)
  from readAdcircNodes_loop_shape [OF record_failed(3)] record_failed(1) show ?thesis
    by (simp add: numNodes_def)
next
  case (all_read fid1 m2)
  from readAdcircNodes_loop_shape [OF all_read(3)]
  have s2: "length (m_nodes m2) = unat (m_numNodes m2)" "m_numNodes m2 = m_numNodes m"
    "m_elementalSearchTree m2 = m_elementalSearchTree m"
    by (simp_all add: numNodes_def)
  from nodeLookup_fill_shape [OF s2(1)] s2 all_read(1,4) show ?thesis
    by (simp add: numNodes_def)
qed

lemma lookup_ok_frame: "frame m m' \<Longrightarrow> lookup_ok m \<Longrightarrow> lookup_ok m'"
  unfolding lookup_ok_def frame_def map_le_def
  by (metis domI)

lemma readAdcircNodes_lookup:
  assumes "readAdcircNodes env fid m = (Inr fid', m')" and "\<not> m_nodeOrderingLogical m'"
  shows "lookup_ok m'"
  using assms(1)
proof (cases rule: readAdcircNodes_cases)
  case (all_read fid1 m2)
  from readAdcircNodes_loop_shape [OF all_read(3)]
  have s2: "length (m_nodes m2) = unat (m_numNodes m2)"
    by (simp add: numNodes_def)
  have pre: "\<forall>i\<in>set [0..<unat (m_numNodes m2)]. i < length (m_nodes m2) \<and> i < 2 ^ 64"
    using s2 unsigned_less [of "m_numNodes m2", where ?'a = nat] by auto
  note fill = nodeLookup_fill_lookup [OF pre]
  from all_read(4) assms(2) have m': "m' = nodeLookup_fill [0..<unat (m_numNodes m2)] m2"
    by (auto split: if_splits)
  show ?thesis
    unfolding lookup_ok_def
  proof
    fix n assume "n \<in> set (m_nodes m')"
    then have "n \<in> set (m_nodes m2)" using fill m' by simp
    then obtain i where i: "i < length (m_nodes m2)" "m_nodes m2 ! i = n"
      by (auto simp: in_set_conv_nth)
    then have "\<exists>i\<in>set [0..<unat (m_numNodes m2)]. node_id (m_nodes m2 ! i) = node_id n"
      using s2 by auto
    with fill have "\<exists>p. m_nodeLookup m' (node_id n) = Some p \<and> unat p < length (m_nodes m2) \<and>
             node_id (m_nodes m2 ! unat p) = node_id n"
      unfolding m' by blast
    moreover have "m_nodes m' = m_nodes m2" using fill m' by simp
    ultimately show "\<exists>p. m_nodeLookup m' (node_id n) = Some p \<and>
         unat p < length (m_nodes m') \<and> node_id (m_nodes m' ! unat p) = node_id n"
      by simp
  qed
qed simp_all

lemma readAdcircMesh_cases:
  assumes "readAdcircMesh env fs m = (r, m')"
  obtains (header) e where "readAdcircMeshHeader env (fopen fs (m_filename m)) m = (Inl e, m')" "r = Inl e"
  | (nodes) fid1 m1 e where "readAdcircMeshHeader env (fopen fs (m_filename m)) m = (Inr fid1, m1)"
      and "readAdcircNodes env fid1 m1 = (Inl e, m')" and "r = Inl e"
  | (later) fid1 m1 fid2 m2 where "readAdcircMeshHeader env (fopen fs (m_filename m)) m = (Inr fid1, m1)"
      and "readAdcircNodes env fid1 m1 = (Inr fid2, m2)" and "frame m2 m'"
proof -
  obtain r1 m1 where h: "readAdcircMeshHeader env (fopen fs (m_filename m)) m = (r1, m1)"
    by (cases "readAdcircMeshHeader env (fopen fs (m_filename m)) m")
  show thesis
  proof (cases r1)
    case (Inl e)
    with assms h have "m' = m1" "r = Inl e" by (simp_all add: readAdcircMesh_def)
    with h Inl show thesis by (intro header) simp_all
  next
    case (Inr fid1)
    obtain r2 m2 where n: "readAdcircNodes env fid1 m1 = (r2, m2)"
      by (cases "readAdcircNodes env fid1 m1")
    show thesis
    proof (cases r2)
      case (Inl e)
      with assms h Inr n have "m' = m2" "r = Inl e" by (simp_all add: readAdcircMesh_def)
      with h Inr n Inl show thesis by (intro nodes) auto
    next
      case fid2: (Inr fid2)
      obtain r3 m3 where e: "readAdcircElements env fid2 m2 = (r3, m3)"
        by (cases "readAdcircElements env fid2 m2")
      then have f3: "frame m2 m3" by (rule readAdcircElements_frame)
      have "frame m3 m'"
      proof (cases r3)
        case (Inl err)
        with assms h Inr n fid2 e show ?thesis by (simp add: readAdcircMesh_def)
      next
        case fid3: (Inr fid3)
        obtain r4 m4 where ob: "readAdcircOpenBoundaries env fid3 m3 = (r4, m4)"
          by (cases "readAdcircOpenBoundaries env fid3 m3")
        then have f4: "frame m3 m4" by (rule readAdcircOpenBoundaries_frame)
        show ?thesis
        proof (cases r4)
          case (Inl err)
          with assms h Inr n fid2 e fid3 ob f4 show ?thesis by (simp add: readAdcircMesh_def)
        next
          case fid4: (Inr fid4)
          obtain r5 m5 where lb: "readAdcircLandBoundaries env fid4 m4 = (r5, m5)"
            by (cases "readAdcircLandBoundaries env fid4 m4")
          then have f5: "frame m4 m5" by (rule readAdcircLandBoundaries_frame)
          from assms h Inr n fid2 e fid3 ob fid4 lb have "m' = m5"
            by (cases r5) (simp_all add: readAdcircMesh_def)
          with f4 f5 show ?thesis by (blast intro: frame_trans)
        qed
      qed
      with f3 have "frame m2 m'" by (blast intro: frame_trans)
      with h Inr n fid2 show thesis by (intro later) auto
    qed
  qed
qed

lemma readAdcircMesh_lookup:
  assumes "readAdcircMesh env fs m = (Inr u, m')" and "\<not> m_nodeOrderingLogical m'"
  shows "lookup_ok m'"
  using assms(1)
proof (cases rule: readAdcircMesh_cases)
  case (later fid1 m1 fid2 m2)
  from later(3) assms(2) have "\<not> m_nodeOrderingLogical m2" by (simp add: frame_def)
  with later(2) have "lookup_ok m2" by (rule readAdcircNodes_lookup)
  with later(3) show ?thesis by (rule lookup_ok_frame)
qed auto


lemma read_adcirc_success:
  assumes "read env fs MESH_ADCIRC m = (Inr u, m')"
  shows "readAdcircMesh env fs (init m) = (Inr u, m')"
  using assms by (auto simp: read_def split: if_splits)

lemma init_shape:
  "m_nodes (init m) = [] \<and> m_elements (init m) = [] \<and> m_openBoundaries (init m) = [] \<and>
   m_landBoundaries (init m) = [] \<and> m_numNodes (init m) = 0 \<and>
   m_filename (init m) = m_filename m \<and> m_elementalSearchTree (init m) = None \<and>
   m_nodeOrderingLogical (init m)"
  by (simp add: init_def defineProjection_def Let_def)

subsection \<open>Lookup by identifier\<close>

text \<open>
  The two branches of the lookups by identifier. With sequential ordering an identifier
  outside \<open>1 .. count\<close> raises the not-found exception and one inside yields position
  \<open>id - 1\<close>; in the lookup-table branch no identifier ever raises.
\<close>

lemma nodeById_sequential:
  assumes "m_nodeOrderingLogical m"
  shows "fst (nodeById m i) =
           (if 0 < i \<and> i \<le> numNodes m then Inr (unat i - 1)
            else Inl (Exception (''Mesh: Node id '' @ to_string i @ '' not found'')))"
  using assms by (auto simp: nodeById_def unat_minus_one)

lemma elementById_sequential:
  assumes "m_elementOrderingLogical m"
  shows "fst (elementById m i) =
           (if 0 < i \<and> i \<le> numElements m then Inr (unat i - 1)
            else Inl (Exception ''Mesh: Element id not found''))"
  using assms by (auto simp: elementById_def unat_minus_one)

lemma nodeById_lookup_never_raises:
  assumes "\<not> m_nodeOrderingLogical m"
  shows "\<exists>p. fst (nodeById m i) = Inr p"
  using assms by (simp add: nodeById_def case_prod_beta)

lemma elementById_lookup_never_raises:
  assumes "\<not> m_elementOrderingLogical m"
  shows "\<exists>p. fst (elementById m i) = Inr p"
  using assms by (simp add: elementById_def case_prod_beta)

lemma nodeIndexById_sequential:
  "m_nodeOrderingLogical m \<Longrightarrow> fst (nodeIndexById m i) = i - 1"
  by (simp add: nodeIndexById_def)

lemma elementIndexById_sequential:
  "m_elementOrderingLogical m \<Longrightarrow> fst (elementIndexById m i) = i"
  by (simp add: elementIndexById_def)

text \<open>
  C1 (lookup of an identifier that is not in the mesh must be a not-found error, in the
  sequential case and in the lookup-table case). In the lookup-table case the code
  raises nothing: after reading the file with node identifiers 20, 10, 40, 30 and
  element identifiers 5, 4, \<^verbatim>\<open>nodeById(7)\<close> and \<^verbatim>\<open>elementById(7)\<close> both return the
  record at position 0.
\<close>

theorem lookup_case_absent_id_no_error:
  "fst (read decimal_env example_fs MESH_ADCIRC (new_Mesh ''shuffled.14'')) = Inr () \<and>
   \<not> m_nodeOrderingLogical shuffled_mesh \<and> \<not> m_elementOrderingLogical shuffled_mesh \<and>
   map node_id (m_nodes shuffled_mesh) = [20, 10, 40, 30] \<and>
   map element_id (m_elements shuffled_mesh) = [5, 4] \<and>
   fst (nodeById shuffled_mesh 7) = Inr 0 \<and>
   fst (elementById shuffled_mesh 7) = Inr 0"
  unfolding shuffled_mesh_def by code_simp

text \<open>
  C2 (with the ordering-sequential flag set, the position of identifier \<open>id\<close> is
  \<open>id - 1\<close>, for nodes and for elements). \<^verbatim>\<open>nodeIndexById\<close> returns \<open>id - 1\<close>, but
  \<^verbatim>\<open>elementIndexById\<close> returns \<open>id\<close> itself: in the sequential example mesh, whose
  elements 1 and 2 are stored at positions 0 and 1, it answers 1 for element 1 and 2 for
  element 2.
\<close>

theorem elementIndexById_sequential_off_by_one:
  "m_nodeOrderingLogical sequential_mesh \<and> m_elementOrderingLogical sequential_mesh \<and>
   map element_id (m_elements sequential_mesh) = [1, 2] \<and>
   fst (nodeIndexById sequential_mesh 2) = 1 \<and>
   fst (elementIndexById sequential_mesh 2) = 2 \<and>
   fst (elementIndexById sequential_mesh 1) = 1"
  unfolding sequential_mesh_def by code_simp

text \<open>
  C5 (after a read in which the node identifiers were found non-sequential,
  \<^verbatim>\<open>nodeById(id)\<close> returns the node whose stored identifier is \<open>id\<close>, for every
  identifier present in the input). Stated for the mesh a successful native-ASCII
  \<^verbatim>\<open>read\<close> leaves behind: for every stored node, looking its identifier up yields a
  valid position holding a node with that identifier. Entries that an earlier read left
  in the table, and keys that the element and boundary sections inserted, do not
  disturb this.
\<close>

theorem nodeById_after_shuffled_read:
  assumes "read env fs MESH_ADCIRC m = (Inr (), m')"
      and "\<not> m_nodeOrderingLogical m'"
      and "n \<in> set (m_nodes m')"
  shows "\<exists>p. fst (nodeById m' (node_id n)) = Inr p \<and> p < length (m_nodes m') \<and>
             node_id (m_nodes m' ! p) = node_id n"
proof -
  from assms(1) have "readAdcircMesh env fs (init m) = (Inr (), m')"
    by (rule read_adcirc_success)
  then have "lookup_ok m'" using assms(2) by (rule readAdcircMesh_lookup)
  with assms(3) obtain p where p: "m_nodeLookup m' (node_id n) = Some p"
    "unat p < length (m_nodes m')" "node_id (m_nodes m' ! unat p) = node_id n"
    unfolding lookup_ok_def by blast
  from p(1) assms(2) have "fst (nodeById m' (node_id n)) = Inr (unat p)"
    by (simp add: nodeById_def subscript_def)
  with p show ?thesis by blast
qed

theorem nodeById_after_shuffled_read_witness:
  "read decimal_env example_fs MESH_ADCIRC (new_Mesh ''shuffled.14'') = (Inr (), shuffled_mesh) \<and>
   \<not> m_nodeOrderingLogical shuffled_mesh \<and>
   m_nodes shuffled_mesh ! 2 \<in> set (m_nodes shuffled_mesh) \<and>
   (\<exists>p. fst (nodeById shuffled_mesh 40) = Inr p \<and> p < length (m_nodes shuffled_mesh) \<and>
        node_id (m_nodes shuffled_mesh ! p) = 40)"
proof -
  have ok: "fst (read decimal_env example_fs MESH_ADCIRC (new_Mesh ''shuffled.14'')) = Inr ()"
    by code_simp
  then have r: "read decimal_env example_fs MESH_ADCIRC (new_Mesh ''shuffled.14'') =
      (Inr (), shuffled_mesh)"
    by (simp add: shuffled_mesh_def prod_eq_iff)
  have f: "\<not> m_nodeOrderingLogical shuffled_mesh"
    unfolding shuffled_mesh_def by code_simp
  have len: "length (m_nodes shuffled_mesh) = 4"
    unfolding shuffled_mesh_def by code_simp
  then have n: "m_nodes shuffled_mesh ! 2 \<in> set (m_nodes shuffled_mesh)"
    by simp
  have i: "node_id (m_nodes shuffled_mesh ! 2) = 40"
    unfolding shuffled_mesh_def by code_simp
  from nodeById_after_shuffled_read [OF r f n] r f n i show ?thesis by simp
qed

subsection \<open>The ordering flags after a read\<close>

text \<open>
  The node half: after a successful native-ASCII read the node flag is set exactly when
  every position \<open>k\<close> of the node storage holds the node with identifier \<open>k + 1\<close>.
\<close>

lemma readAdcircNodes_loop_flag:
  assumes "readAdcircNodes_loop env [k0..<N] (of_nat k0) fid m = (Inr fid', m')"
      and "N \<le> length (m_nodes m)"
  shows "(m_nodeOrderingLogical m' \<longleftrightarrow>
            m_nodeOrderingLogical m \<and> (\<forall>k. k0 \<le> k \<and> k < N \<longrightarrow> node_id (m_nodes m' ! k) = of_nat k + 1)) \<and>
         (\<forall>k < k0. m_nodes m' ! k = m_nodes m ! k) \<and> length (m_nodes m') = length (m_nodes m)"
  using assms
proof (induction "N - k0" arbitrary: k0 fid m)
  case 0
  then have "[k0..<N] = []" by simp
  with 0 show ?case by auto
next
  case (Suc d)
  then have lt: "k0 < N" by simp
  then have upt: "[k0..<N] = k0 # [Suc k0..<N]" by (simp add: upt_conv_Cons)
  from Suc.prems(1) obtain nid x y z where
    parse: "splitStringNodeFormat env (fst (getline fid [])) = Some (nid, x, y, z)"
    unfolding upt by (auto simp: case_prod_beta split: option.splits)
  define m2 where "m2 = (if of_nat k0 \<noteq> nid - 1 then m\<lparr>m_nodeOrderingLogical := False\<rparr> else m)
       \<lparr>m_nodes := (m_nodes m)[k0 := \<lparr>node_id = nid, node_x = x, node_y = y, node_z = z\<rparr>]\<rparr>"
  have step: "readAdcircNodes_loop env [Suc k0..<N] (of_nat (Suc k0)) (snd (getline fid [])) m2 = (Inr fid', m')"
    using Suc.prems(1) parse unfolding upt
    by (auto simp: case_prod_beta Let_def m2_def add.commute split: if_splits)
  have len2: "length (m_nodes m2) = length (m_nodes m)" by (simp add: m2_def)
  have d: "d = N - Suc k0" using Suc.hyps(2) by simp
  from Suc.hyps(1) [OF d step] Suc.prems(2) len2
  have IH: "m_nodeOrderingLogical m' \<longleftrightarrow>
            m_nodeOrderingLogical m2 \<and> (\<forall>k. Suc k0 \<le> k \<and> k < N \<longrightarrow> node_id (m_nodes m' ! k) = of_nat k + 1)"
    "\<forall>k < Suc k0. m_nodes m' ! k = m_nodes m2 ! k" "length (m_nodes m') = length (m_nodes m)"
    by simp_all
  have k0: "m_nodes m' ! k0 = \<lparr>node_id = nid, node_x = x, node_y = y, node_z = z\<rparr>"
    using IH(2) lt Suc.prems(2) by (simp add: m2_def)
  have flag2: "m_nodeOrderingLogical m2 \<longleftrightarrow> m_nodeOrderingLogical m \<and> nid = of_nat k0 + 1"
    by (auto simp: m2_def)
  have split: "(\<forall>k. k0 \<le> k \<and> k < N \<longrightarrow> P k) \<longleftrightarrow> P k0 \<and> (\<forall>k. Suc k0 \<le> k \<and> k < N \<longrightarrow> P k)" for P
  proof
    assume a: "\<forall>k. k0 \<le> k \<and> k < N \<longrightarrow> P k"
    show "P k0 \<and> (\<forall>k. Suc k0 \<le> k \<and> k < N \<longrightarrow> P k)" using a lt by auto
  next
    assume b: "P k0 \<and> (\<forall>k. Suc k0 \<le> k \<and> k < N \<longrightarrow> P k)"
    show "\<forall>k. k0 \<le> k \<and> k < N \<longrightarrow> P k"
    proof (intro allI impI)
      fix k assume k: "k0 \<le> k \<and> k < N"
      then have "k = k0 \<or> Suc k0 \<le> k" by arith
      with b k show "P k" by auto
    qed
  qed
  show ?case
    unfolding split
    using IH flag2 k0 by (auto simp: m2_def)
qed

lemma readAdcircNodes_flag:
  assumes "readAdcircNodes env fid m = (Inr fid', m')" and "m_nodeOrderingLogical m"
  shows "m_nodeOrderingLogical m' \<longleftrightarrow>
           (\<forall>k < length (m_nodes m'). node_id (m_nodes m' ! k) = of_nat k + 1)"
  using assms(1)
proof (cases rule: readAdcircNodes_cases)
  case (all_read fid1 m2)
  let ?m1 = "m\<lparr>m_nodes := resized (Node0 env) (unat (numNodes m)) (m_nodes m)\<rparr>"
  from all_read(3) have "readAdcircNodes_loop env [0..<unat (numNodes m)] (of_nat 0) fid ?m1 =
      (Inr fid1, m2)"
    by simp
  from readAdcircNodes_loop_flag [OF this] assms(2)
  have f2: "m_nodeOrderingLogical m2 \<longleftrightarrow>
      (\<forall>k < length (m_nodes m2). node_id (m_nodes m2 ! k) = of_nat k + 1)"
    by simp
  from readAdcircNodes_loop_shape [OF all_read(3)]
  have s2: "length (m_nodes m2) = unat (m_numNodes m2)"
    by (simp add: numNodes_def)
  from nodeLookup_fill_shape [OF s2] all_read(4)
  have "m_nodes m' = m_nodes m2 \<and> m_nodeOrderingLogical m' = m_nodeOrderingLogical m2"
    by simp
  with f2 show ?thesis by simp
qed simp_all

lemma readAdcircMeshHeader_flag:
  assumes "readAdcircMeshHeader env fid m = (r, m')"
  shows "m_nodeOrderingLogical m' = m_nodeOrderingLogical m"
  using assms unfolding readAdcircMeshHeader_def
  by (auto simp: case_prod_beta Let_def setMeshHeaderString_def setNumElements_def
        setNumNodes_def split: list.splits if_splits)

lemma node_flag_after_read:
  assumes "read env fs MESH_ADCIRC m = (Inr (), m')"
  shows "m_nodeOrderingLogical m' \<longleftrightarrow>
           (\<forall>k < length (m_nodes m'). node_id (m_nodes m' ! k) = of_nat k + 1)"
proof -
  from assms have "readAdcircMesh env fs (init m) = (Inr (), m')"
    by (rule read_adcirc_success)
  then show ?thesis
  proof (cases rule: readAdcircMesh_cases)
    case (later fid1 m1 fid2 m2)
    have "m_nodeOrderingLogical (init m)" by (simp add: init_def Let_def defineProjection_def)
    with readAdcircMeshHeader_flag [OF later(1)] have "m_nodeOrderingLogical m1" by simp
    from readAdcircNodes_flag [OF later(2) this] later(3) show ?thesis
      by (simp add: frame_def)
  qed auto
qed

text \<open>
  C3 (after a native-ASCII read each ordering flag is true exactly when every record of
  its kind at position \<open>i\<close> has identifier \<open>i + 1\<close>, the element flag regardless of the
  node ordering). When the node ordering is sequential the element identifiers are never
  compared: the file whose elements come in the order 2, 1 is read without error and
  leaves the element flag set. (For the node flag the statement holds, see
  \<open>node_flag_after_read\<close>.)
\<close>

theorem element_flag_unchecked_when_nodes_sequential:
  "(let r = read decimal_env example_fs MESH_UNKNOWN (new_Mesh ''elements.14'')
    in fst r = Inr () \<and> m_nodeOrderingLogical (snd r) \<and>
       map element_id (m_elements (snd r)) = [2, 1] \<and>
       m_elementOrderingLogical (snd r))"
  by code_simp

subsection \<open>A read that fails\<close>



lemma length_parsed_nodes: "length (parsed_nodes env n fid) \<le> n"
  by (induction n arbitrary: fid) (auto simp: case_prod_beta split: option.splits)

lemma readAdcircNodes_loop_done:
  assumes "readAdcircNodes_loop env ks i fid m = (Inr fid', m')"
  shows "length (parsed_nodes env (length ks) fid) = length ks"
  using assms
  by (induction ks arbitrary: i fid m)
     (auto simp: case_prod_beta Let_def split: option.splits)




subsection \<open>Boundary totals\<close>

lemma add_lengths_sum: "add_lengths acc bs = acc + sum_list (map b_length bs)"
  by (induction bs arbitrary: acc) (simp_all add: add.assoc)

lemma unat_sum_list:
  "unat (sum_list (map f xs) :: size_t) = (\<Sum>x\<leftarrow>xs. unat (f x)) mod 2 ^ 64"
proof (induction xs)
  case Nil
  show ?case by simp
next
  case (Cons x xs)
  have "unat (f x + sum_list (map f xs)) = (unat (f x) + unat (sum_list (map f xs))) mod 2 ^ 64"
    by (simp add: unat_word_ariths)
  also have "\<dots> = (unat (f x) + (\<Sum>x\<leftarrow>xs. unat (f x))) mod 2 ^ 64"
    unfolding Cons.IH by (rule mod_add_right_eq)
  finally show ?case by simp
qed

text \<open>
  C8 (\<^verbatim>\<open>totalOpenBoundaryNodes()\<close> is the sum of the lengths of the open boundaries,
  \<^verbatim>\<open>totalLandBoundaryNodes()\<close> the sum of the lengths of the land boundaries, computed
  anew from the boundary collections at every call). The sums are sums of \<^verbatim>\<open>size_t\<close>
  values, that is, the sums of the lengths modulo \<open>2 ^ 64\<close>; the stored total of the
  mesh given to the call does not enter the result.
\<close>

theorem total_boundary_nodes_are_sums:
  "fst (totalOpenBoundaryNodes m) = sum_list (map b_length (m_openBoundaries m)) \<and>
   fst (totalLandBoundaryNodes m) = sum_list (map b_length (m_landBoundaries m)) \<and>
   m_totalOpenBoundaryNodes (snd (totalOpenBoundaryNodes m)) =
     sum_list (map b_length (m_openBoundaries m)) \<and>
   m_totalLandBoundaryNodes (snd (totalLandBoundaryNodes m)) =
     sum_list (map b_length (m_landBoundaries m)) \<and>
   unat (fst (totalOpenBoundaryNodes m)) =
     (\<Sum>b\<leftarrow>m_openBoundaries m. unat (b_length b)) mod 2 ^ 64 \<and>
   unat (fst (totalLandBoundaryNodes m)) =
     (\<Sum>b\<leftarrow>m_landBoundaries m. unat (b_length b)) mod 2 ^ 64"
  by (simp add: totalOpenBoundaryNodes_def totalLandBoundaryNodes_def Let_def add_lengths_sum
      unat_sum_list)

subsection \<open>Access by position\<close>

text \<open>
  C10 (when the stored counts equal the sizes of the node and element storage,
  \<^verbatim>\<open>node(index)\<close> and \<^verbatim>\<open>element(index)\<close> return the pointer to the record at that
  position for an index below the count, and raise the out-of-bounds error exactly for
  an index at or above it).
\<close>

theorem positional_accessors:
  assumes "unat (m_numNodes m) = length (m_nodes m)"
      and "unat (m_numElements m) = length (m_elements m)"
  shows "(index < numNodes m \<longrightarrow>
            node m index = Inr (unat index) \<and> unat index < length (m_nodes m)) \<and>
         ((\<exists>e. node m index = Inl e) \<longleftrightarrow> numNodes m \<le> index) \<and>
         (index < numElements m \<longrightarrow>
            element m index = Inr (unat index) \<and> unat index < length (m_elements m)) \<and>
         ((\<exists>e. element m index = Inl e) \<longleftrightarrow> numElements m \<le> index)"
  using assms
  by (auto simp: node_def element_def numNodes_def numElements_def
        word_less_nat_alt word_le_nat_alt)

theorem positional_accessors_witness:
  "unat (m_numNodes sequential_mesh) = length (m_nodes sequential_mesh) \<and>
   unat (m_numElements sequential_mesh) = length (m_elements sequential_mesh) \<and>
   node sequential_mesh 3 = Inr 3 \<and> (\<exists>e. node sequential_mesh 4 = Inl e) \<and>
   element sequential_mesh 1 = Inr 1 \<and> (\<exists>e. element sequential_mesh 2 = Inl e)"
  using positional_accessors [of sequential_mesh 3] positional_accessors [of sequential_mesh 4]
    positional_accessors [of sequential_mesh 1] positional_accessors [of sequential_mesh 2]
  by (simp add: sequential_mesh_counts numNodes_def numElements_def)

subsection \<open>Point location\<close>

lemma findElement_loop_find:
  assumes "\<forall>i\<in>set is. i < numElements m \<and> unat i < length (m_elements m)"
  shows "findElement_loop env m location is =
           (case find (\<lambda>i. isInside env (m_nodes m) (m_elements m ! unat i) location) is of
              Some i \<Rightarrow> Inr i | None \<Rightarrow> Inr (- 1))"
  using assms by (induction "is") (simp_all add: element_def)

text \<open>
  With the element search tree built, and the tree answering with positions of stored
  elements, \<^verbatim>\<open>findElement\<close> returns the first candidate, in the order in which the tree
  returned the 20 nearest, whose element contains the location, and the not-found value
  \<^verbatim>\<open>(size_t)-1\<close> when there is none; the mesh is unchanged.
\<close>

lemma findElement_with_tree:
  assumes "m_elementalSearchTree m = Some t" and "kd_initialized t"
      and "\<forall>i\<in>set (kd_findXNearest env t location 20).
             i < numElements m \<and> unat i < length (m_elements m)"
  shows "findElement env m location =
           ((case find (\<lambda>i. isInside env (m_nodes m) (m_elements m ! unat i) location)
                    (kd_findXNearest env t location 20) of
               Some i \<Rightarrow> Inr i | None \<Rightarrow> Inr (- 1)), m)"
  using assms
  by (simp add: findElement_def elementalSearchTreeInitialized_def findElement_loop_find)

text \<open>
  While the pointer to the element search tree is null, \<^verbatim>\<open>findElement\<close> does not reach
  the statement that would build the tree: the test before it calls a method through the
  null pointer. Every native-ASCII read ends with the pointer null, whatever the mesh
  held before and whether or not the read succeeds, because \<^verbatim>\<open>_init\<close> nulls it and no
  reader builds a tree.
\<close>

lemma findElement_null_tree:
  assumes "m_elementalSearchTree m = None"
  shows "findElement env m location = (Inl Crash, m)"
  using assms by (simp add: findElement_def elementalSearchTreeInitialized_def)

lemma readAdcircMesh_tree:
  assumes "readAdcircMesh env fs m = (r, m')"
  shows "m_elementalSearchTree m' = m_elementalSearchTree m"
  using assms
proof (cases rule: readAdcircMesh_cases)
  case (header e)
  from readAdcircMeshHeader_shape [OF header(1)] show ?thesis by simp
next
  case (nodes fid1 m1 e)
  from readAdcircNodes_shape [OF nodes(2)] readAdcircMeshHeader_shape [OF nodes(1)]
  show ?thesis by simp
next
  case (later fid1 m1 fid2 m2)
  from readAdcircNodes_shape [OF later(2)] readAdcircMeshHeader_shape [OF later(1)] later(3)
  show ?thesis by (simp add: frame_def)
qed

lemma findElement_after_read:
  assumes "read env fs MESH_ADCIRC m = (Inr (), m')"
  shows "findElement env' m' location = (Inl Crash, m')"
proof -
  from assms have "readAdcircMesh env fs (init m) = (Inr (), m')"
    by (rule read_adcirc_success)
  from readAdcircMesh_tree [OF this] init_shape [of m]
  have "m_elementalSearchTree m' = None" by simp
  then show ?thesis by (rule findElement_null_tree)
qed

text \<open>
  C7 (\<^verbatim>\<open>findElement(location)\<close> asks the element-centroid index for its 20 nearest
  centroids, tests the candidates for containment in the order of increasing distance,
  returns the position of the first one that contains the point, and reports not-found
  when none does). On a mesh that has just been read the code does none of this. The
  file with two triangles is read without error and leaves the pointer to the element
  search tree null; \<^verbatim>\<open>findElement\<close> at the point (0, 0) then calls
  \<^verbatim>\<open>elementalSearchTreeInitialized\<close>, which dereferences the null pointer, before it
  reaches the statement that builds the tree when it is not initialised. Only after an
  explicit \<^verbatim>\<open>buildElementalSearchTree\<close> does the same call return the first candidate
  that contains the point, here position 1.
\<close>

theorem findElement_null_tree_after_read:
  "fst (read decimal_env example_fs MESH_UNKNOWN (new_Mesh ''sequential.14'')) = Inr () \<and>
   map element_id (m_elements sequential_mesh) = [1, 2] \<and>
   m_elementalSearchTree sequential_mesh = None \<and>
   fst (findElement locating_env sequential_mesh (0, 0)) = Inl Crash \<and>
   fst (buildElementalSearchTree locating_env sequential_mesh) = Inr () \<and>
   fst (findElement locating_env indexed_mesh (0, 0)) = Inr 1"
proof -
  let ?t = "\<lparr>kd_x = [1 / 3, 2 / 3], kd_y = [1 / 3, 2 / 3], kd_initialized = True\<rparr>"
  have ok: "fst (read decimal_env example_fs MESH_UNKNOWN (new_Mesh ''sequential.14'')) = Inr ()"
    by code_simp
  have ids: "map element_id (m_elements sequential_mesh) = [1, 2]"
    unfolding sequential_mesh_def by code_simp
  have null: "m_elementalSearchTree sequential_mesh = None"
    unfolding sequential_mesh_def by code_simp
  have crash: "fst (findElement locating_env sequential_mesh (0, 0)) = Inl Crash"
    by (simp add: findElement_null_tree [OF null])
  have build: "fst (buildElementalSearchTree locating_env sequential_mesh) = Inr ()"
    unfolding sequential_mesh_def by code_simp
  have t: "m_elementalSearchTree indexed_mesh = Some ?t"
    unfolding indexed_mesh_def sequential_mesh_def by code_simp
  have i: "kd_initialized ?t" by simp
  have c: "kd_findXNearest locating_env ?t (0, 0) 20 = [0, 1]"
    by code_simp
  have n: "numElements indexed_mesh = 2" "length (m_elements indexed_mesh) = 2"
    unfolding indexed_mesh_def sequential_mesh_def by code_simp+
  have e: "element_id (m_elements indexed_mesh ! 0) = 1"
    "element_id (m_elements indexed_mesh ! Suc 0) = 2"
    unfolding indexed_mesh_def sequential_mesh_def by code_simp+
  have v: "\<forall>i\<in>set (kd_findXNearest locating_env ?t (0, 0) 20).
             i < numElements indexed_mesh \<and> unat i < length (m_elements indexed_mesh)"
    by (simp add: c n)
  have found: "fst (findElement locating_env indexed_mesh (0, 0)) = Inr 1"
    unfolding findElement_with_tree [OF t i v] c
    by (simp add: locating_env_def e)
  from ok ids null crash build found show ?thesis by simp
qed

subsection \<open>The native-ASCII writer\<close>

lemma unlines_append: "unlines (xs @ ys) = unlines xs @ unlines ys"
  by (simp add: unlines_def)

lemma write_lines_eq: "write_lines js out = out @ unlines js"
  by (induction js arbitrary: out) (simp_all add: unlines_def)

lemma write_nodes_eq:
  "write_nodes env latlon ns out = out @ unlines (map (node_toAdcircString env latlon) ns)"
  by (induction ns arbitrary: out) (simp_all add: unlines_def)

lemma write_elements_eq:
  "write_elements env nodes es out = out @ unlines (map (element_toAdcircString env nodes) es)"
  by (induction es arbitrary: out) (simp_all add: unlines_def)

lemma write_boundaries_eq:
  "write_boundaries env nodes bs out =
     out @ unlines (concat (map (boundary_toStringList env nodes) bs))"
  by (induction bs arbitrary: out) (simp_all add: write_lines_eq unlines_append, simp add: unlines_def)

text \<open>
  C9 (the native-ASCII writer emits the header string as line 1, the element count and
  the node count as two 11-wide integer fields as line 2, one line per node, one line per
  element, the open-boundary block and the land-boundary block, in that order). The file
  written is exactly the lines of \<open>adcirc_layout\<close>, each followed by a newline; a count
  is right-justified with blanks in a field of width 11, which it exceeds only when it
  has more than 11 digits.
\<close>

theorem writeAdcircMesh_layout:
  "fst (writeAdcircMesh env m) = unlines (adcirc_layout env m) \<and>
   format_11i w = replicate (11 - length (to_string w)) (CHR '' '') @ to_string w \<and>
   length (format_11i w) = max 11 (length (to_string w))"
proof (intro conjI)
  show "fst (writeAdcircMesh env m) = unlines (adcirc_layout env m)"
    unfolding writeAdcircMesh_def adcirc_layout_def
    by (simp add: Let_def case_prod_beta totalOpenBoundaryNodes_def totalLandBoundaryNodes_def
        write_nodes_eq write_elements_eq write_boundaries_eq unlines_append add_lengths_sum
        numLandBoundaries_def numOpenBoundaries_def)
      (simp add: unlines_def)
  show "format_11i w = replicate (11 - length (to_string w)) (CHR '' '') @ to_string w"
    by (simp add: format_11i_def Let_def)
  show "length (format_11i w) = max 11 (length (to_string w))"
    by (simp add: format_11i_def Let_def)
qed

subsection \<open>The link table\<close>




















end
